theory Spec2Isabelle
  imports Main "HOL-Library.Word"
begin

section \<open>Values shared by the handlers and the middleware\<close>

text \<open>
  Go's \<open>int\<close> on the 64-bit targets the service is built for: a 64-bit two's complement
  word. \<open>sint\<close> reads its value, \<open><s\<close> and \<open>\<le>s\<close> compare signed, and \<open>*\<close> wraps around.
\<close>

type_synonym go_int = "64 word"

text \<open>
  An \<open>error\<close> value as the code inspects it: either a \<open>*fiber.Error\<close> with its \<open>Code\<close>
  and \<open>Message\<close>, or any other error, of which only the text is used.
\<close>

datatype go_error = FiberError int string | OtherError string

fun Error_text :: "go_error \<Rightarrow> string" where
  "Error_text (FiberError code msg) = msg"
| "Error_text (OtherError msg) = msg"

definition StatusOK :: int where "StatusOK = 200"
definition StatusNotFound :: int where "StatusNotFound = 404"
definition StatusInternalServerError :: int where "StatusInternalServerError = 500"

section \<open>Pagination of \<open>ListUsers\<close>\<close>

subsection \<open>\<open>strconv.Atoi\<close> and \<open>c.Query\<close>\<close>

text \<open>
  \<open>strconv.Atoi\<close> of Go's standard library, for a 64-bit \<open>int\<close>. A text of 1 to 18
  bytes takes the fast path: an optional sign, then digits accumulated without any
  overflow check, and 0 with a syntax error at the first byte that is not a digit. Any
  other text goes to \<open>ParseInt(s, 10, 0)\<close>, which strips the sign and calls \<open>ParseUint\<close>.
  \<open>ParseUint\<close> reads byte by byte: a byte that is not a digit ends it with 0 and a syntax
  error, and digits that overflow 64 bits end it at once with the largest value and a
  range error, before any later byte is read. \<open>ParseInt\<close> passes a syntax error on with 0
  and turns a value out of range into the nearest \<open>int\<close> with a range error. The second
  component of each result is the error, \<open>None\<close> for nil.
\<close>

datatype num_error = ErrSyntax | ErrRange

definition isDigit :: "char \<Rightarrow> bool" where
  "isDigit ch = (48 \<le> (of_char ch :: nat) \<and> (of_char ch :: nat) \<le> 57)"

fun digitsVal :: "nat \<Rightarrow> string \<Rightarrow> nat option" where
  "digitsVal n [] = Some n"
| "digitsVal n (ch # cs) =
     (if isDigit ch then digitsVal (n * 10 + ((of_char ch :: nat) - 48)) cs else None)"

definition maxUint64 :: nat where
  "maxUint64 = 18446744073709551615"

fun ParseUint_digits :: "nat \<Rightarrow> string \<Rightarrow> nat \<times> num_error option" where
  "ParseUint_digits n [] = (n, None)"
| "ParseUint_digits n (ch # cs) =
     (if \<not> isDigit ch then (0, Some ErrSyntax)
      else if n \<ge> maxUint64 div 10 + 1 then (maxUint64, Some ErrRange)
      else if n * 10 + ((of_char ch :: nat) - 48) > maxUint64 then (maxUint64, Some ErrRange)
      else ParseUint_digits (n * 10 + ((of_char ch :: nat) - 48)) cs)"

definition ParseUint :: "string \<Rightarrow> nat \<times> num_error option" where
  "ParseUint s = (if s = [] then (0, Some ErrSyntax) else ParseUint_digits 0 s)"

definition ParseInt :: "string \<Rightarrow> go_int \<times> num_error option" where
  "ParseInt s =
     (case s of
        [] \<Rightarrow> (0, Some ErrSyntax)
      | ch # cs \<Rightarrow>
          (let neg = (ch = CHR ''-'');
               s1 = (if ch = CHR ''+'' \<or> ch = CHR ''-'' then cs else s);
               (un, err) = ParseUint s1
           in if err = Some ErrSyntax then (0, err)
              else if \<not> neg \<and> un \<ge> 2 ^ 63 then (2 ^ 63 - 1, Some ErrRange)
              else if neg \<and> un > 2 ^ 63 then (- (2 ^ 63), Some ErrRange)
              else (if neg then - of_nat un else of_nat un, None)))"

definition Atoi :: "string \<Rightarrow> go_int \<times> num_error option" where
  "Atoi s =
     (if 0 < length s \<and> length s < 19
      then (case s of
              [] \<Rightarrow> (0, Some ErrSyntax)
            | ch # cs \<Rightarrow>
                (let s1 = (if ch = CHR ''-'' \<or> ch = CHR ''+'' then cs else s)
                 in if s1 = [] then (0, Some ErrSyntax)
                    else (case digitsVal 0 s1 of
                            None \<Rightarrow> (0, Some ErrSyntax)
                          | Some n \<Rightarrow> (if ch = CHR ''-'' then - of_nat n else of_nat n, None))))
      else ParseInt s)"

text \<open>
  The strings \<open>Atoi\<close> accepts syntactically: an optional sign followed by at least one
  digit, all of them digits. For any text, the digits it has between the optional sign
  and the first byte that is not a digit, and their value as a decimal number.
\<close>

definition numeric :: "string \<Rightarrow> bool" where
  "numeric s =
     (case s of
        [] \<Rightarrow> False
      | ch # cs \<Rightarrow>
          (let ds = (if ch = CHR ''-'' \<or> ch = CHR ''+'' then cs else s)
           in ds \<noteq> [] \<and> list_all isDigit ds))"

definition unsigned_part :: "string \<Rightarrow> string" where
  "unsigned_part s =
     (case s of
        [] \<Rightarrow> []
      | ch # cs \<Rightarrow> if ch = CHR ''-'' \<or> ch = CHR ''+'' then cs else s)"

fun decimal :: "nat \<Rightarrow> string \<Rightarrow> nat" where
  "decimal n [] = n"
| "decimal n (ch # cs) = decimal (n * 10 + ((of_char ch :: nat) - 48)) cs"

definition leading_digits :: "string \<Rightarrow> nat" where
  "leading_digits s = decimal 0 (takeWhile isDigit (unsigned_part s))"

text \<open>
  The query string as Fiber presents it: a key is absent (\<open>None\<close>) or carries a value.
  \<open>c.Query(key, default)\<close> returns the default when the key is absent or its value is the
  empty string.
\<close>

type_synonym query = "string \<Rightarrow> string option"

definition Query :: "query \<Rightarrow> string \<Rightarrow> string \<Rightarrow> string" where
  "Query q key defaultValue =
     (case q key of
        None \<Rightarrow> defaultValue
      | Some v \<Rightarrow> if v = [] then defaultValue else v)"

subsection \<open>The pagination parameters\<close>

text \<open>
  Lines 39 to 47 of \<open>ListUsers\<close>: both parse errors are discarded, \<open>limit\<close> is capped at
  100, \<open>page\<close> is raised to 1, and the offset is their product in \<open>int\<close> arithmetic.
  The result is \<open>(limit, page, offset)\<close>.
\<close>

definition pagination :: "query \<Rightarrow> go_int \<times> go_int \<times> go_int" where
  "pagination q =
     (let limit0 = fst (Atoi (Query q ''limit'' ''10''));
          limit = (if 100 <s limit0 then 100 else limit0);
          page0 = fst (Atoi (Query q ''page'' ''1''));
          page = (if page0 <s 1 then 1 else page0);
          offset = (page - 1) * limit
      in (limit, page, offset))"

section \<open>Telemetry events, stores and the request state\<close>

text \<open>
  Everything the code sends to a telemetry sink is recorded, in order, as an event: a zap
  log entry (level, message, fields), a counter increment or histogram observation
  (instrument name, value, attributes), and every call on a span. A span is named by the
  number it received when it was started.
\<close>

datatype level = Info | Warn | Error

datatype attr_val = AStr string | AInt int | ABool bool

type_synonym attrs = "(string \<times> attr_val) list"

record user =
  ID :: int
  Name :: string
  Email :: string
  CreatedAt :: nat

text \<open>
  A response body is the JSON encoding of a value; \<open>fiber.Map\<close> is a \<open>JMap\<close>.
\<close>

datatype json = JStr string | JInt int | JUser user | JList "json list" | JMap "(string \<times> json) list"

datatype measure = Count int | Millis nat | Bytes nat | BytesOf "json option"

datatype event =
    Log level string attrs
  | CounterAdd string measure attrs
  | HistRecord string measure attrs
  | SpanStart nat string attrs
  | SpanSetAttributes nat attrs
  | SpanSetStatusError nat string
  | SpanRecordError nat string bool
  | SpanEnd nat
  | Inject nat

text \<open>
  The PostgreSQL pool as the handlers see it: reachable or not, and the rows of table
  \<open>users\<close>. The Redis client: reachable or not, and its entries, each a value with its
  time to live in seconds. A cached value either decodes as a user (\<open>json.Unmarshal\<close>
  succeeds on what \<open>json.Marshal\<close> wrote) or it does not.
\<close>

record postgres =
  pg_up :: bool
  pg_rows :: "user list"

datatype pg_error = ConnError | ErrNoRows | QueryError string

fun pg_error_text :: "pg_error \<Rightarrow> string" where
  "pg_error_text ConnError = ''failed to connect''"
| "pg_error_text ErrNoRows = ''no rows in result set''"
| "pg_error_text (QueryError m) = m"

datatype cache_val = Marshal user | Malformed string

record redis =
  rdb_up :: bool
  rdb_entries :: "string \<Rightarrow> (cache_val \<times> nat) option"

text \<open>
  The state one request runs in: the request as \<open>fiber.Ctx\<close> exposes it, the response
  under construction, the span carried by \<open>c.Context()\<close> (its number and whether the
  sampler chose to record it), the sampler's decision for a span started now, the clock
  in milliseconds, what \<open>debug.Stack()\<close> would return, the two stores, and the events
  emitted so far. Fiber's \<open>c.Route()\<close> never returns nil, so \<open>route\<close> is always there.
\<close>

record state =
  req_method :: string
  path :: string
  route :: string
  original_url :: string
  user_agent :: string
  client_ip :: string
  query_args :: query
  param_id :: string
  req_body :: string
  resp_status :: int
  resp_body :: "json option"
  ctx_span :: "(nat \<times> bool) option"
  sampler :: bool
  next_span :: nat
  now :: nat
  goroutine_stack :: string
  pg :: postgres
  rdb :: redis
  events :: "event list"

text \<open>
  What a handler or the rest of the chain does with control: it returns an error value
  (\<open>None\<close> is Go's \<open>nil\<close>) or it panics with a value, of which the text is kept.
\<close>

datatype result = Returned "go_error option" | Panicked string

type_synonym handler = "state \<Rightarrow> state \<times> result"

definition emit :: "event \<Rightarrow> state \<Rightarrow> state" where
  "emit e s = s\<lparr>events := events s @ [e]\<rparr>"

text \<open>
  \<open>logger.GetLoggerWithTraceContext\<close>: the fields \<open>trace_id\<close> and \<open>span_id\<close> are added
  when the context carries a span with a valid span context.
\<close>

definition trace_fields :: "state \<Rightarrow> attrs" where
  "trace_fields s =
     (case ctx_span s of
        None \<Rightarrow> []
      | Some (sid, rec) \<Rightarrow> [(''trace_id'', AInt (int sid)), (''span_id'', AInt (int sid))])"

text \<open>
  \<open>tracer.Start\<close>: a new span with the next free number; the returned context carries it.
\<close>

definition tracer_Start :: "string \<Rightarrow> attrs \<Rightarrow> state \<Rightarrow> (nat \<times> bool) \<times> state" where
  "tracer_Start name as s =
     ((next_span s, sampler s),
      (emit (SpanStart (next_span s) name as) s)\<lparr>next_span := next_span s + 1\<rparr>)"

text \<open>
  \<open>c.Status(code).JSON(v)\<close> and \<open>c.JSON(v)\<close>.
\<close>

definition c_Status :: "int \<Rightarrow> state \<Rightarrow> state" where
  "c_Status code s = s\<lparr>resp_status := code\<rparr>"

definition c_JSON :: "json \<Rightarrow> state \<Rightarrow> state" where
  "c_JSON v s = s\<lparr>resp_body := Some v\<rparr>"

section \<open>\<open>ListUsers\<close>\<close>

text \<open>
  The query \<open>SELECT ... FROM users ORDER BY id LIMIT $1 OFFSET $2\<close>. \<open>Query\<close> returns an
  error when the store cannot be reached. PostgreSQL rejects a negative \<open>LIMIT\<close> or
  \<open>OFFSET\<close> only when it executes the statement, and pgx reports that through
  \<open>rows.Err()\<close>, which \<open>ListUsers\<close> does not read: the handler sees rows that yield
  nothing. Otherwise the rows come in order of \<open>id\<close>, \<open>offset\<close> of them skipped and at
  most \<open>limit\<close> kept. Every row of the table has the four columns of \<open>User\<close>, so each
  \<open>rows.Scan\<close> succeeds.
\<close>

definition Query_users :: "postgres \<Rightarrow> go_int \<Rightarrow> go_int \<Rightarrow> pg_error + user list" where
  "Query_users db limit offset =
     (if \<not> pg_up db then Inl ConnError
      else if limit <s 0 \<or> offset <s 0 then Inr []
      else Inr (take (nat (sint limit)) (drop (nat (sint offset)) (sort_key ID (pg_rows db)))))"

definition users_json :: "user list \<Rightarrow> go_int \<Rightarrow> go_int \<Rightarrow> json" where
  "users_json users limit page =
     JMap [(''users'', JList (map JUser users)),
           (''metadata'', JMap [(''count'', JInt (int (length users))),
                                (''limit'', JInt (sint limit)),
                                (''page'', JInt (sint page))])]"

definition ListUsers :: "string \<Rightarrow> handler" where
  "ListUsers serviceName s =
     (let lfields = trace_fields s;
          (limit, page, offset) = pagination (query_args s);
          (span, s1) = tracer_Start ''db.list-users'' [] s;
          s2 = emit (SpanSetAttributes (fst span)
                   [(''pagination.limit'', AInt (sint limit)),
                    (''pagination.page'', AInt (sint page))]) s1
      in case Query_users (pg s2) limit offset of
           Inl err \<Rightarrow>
             (emit (SpanEnd (fst span))
                (emit (Log Error ''Failed to query users''
                         (lfields @ [(''error'', AStr (pg_error_text err))])) s2),
              Returned (Some (FiberError StatusInternalServerError ''Failed to fetch users'')))
         | Inr users \<Rightarrow>
             (let s3 = emit (Log Info ''Users fetched with pagination''
                          (lfields @ [(''count'', AInt (int (length users))),
                                     (''limit'', AInt (sint limit)),
                                     (''page'', AInt (sint page))])) s2;
                  s4 = c_JSON (users_json users limit page) s3
              in (emit (SpanEnd (fst span)) s4, Returned None)))"

section \<open>The middleware chain\<close>

subsection \<open>\<open>LoggingMiddleware\<close>\<close>

text \<open>
  Lines 56 to 65 of \<open>logging.go\<close>: the status code the metrics and the log entry carry.
\<close>

definition effective_status :: "go_error option \<Rightarrow> int \<Rightarrow> int" where
  "effective_status err statusCode =
     (if err \<noteq> None \<and> statusCode = StatusOK
      then (case err of
              Some (FiberError code msg) \<Rightarrow> code
            | _ \<Rightarrow> StatusInternalServerError)
      else statusCode)"

text \<open>
  What the stage emits once \<open>c.Next()\<close> has returned \<open>err\<close>: the counter, the three
  histograms, the completion entry and, for an error, the error entry. \<open>lfields\<close> are the
  trace fields of the logger obtained before the handler ran, \<open>start\<close> the time then.
\<close>

definition after_next :: "attrs \<Rightarrow> nat \<Rightarrow> go_error option \<Rightarrow> state \<Rightarrow> event list" where
  "after_next lfields start err s =
     (let duration = now s - start;
          statusCode = effective_status err (resp_status s);
          m = req_method s;
          r = route s
      in [CounterAdd ''http.requests_total'' (Count 1)
            [(''http.method'', AStr m), (''http.route'', AStr r), (''http.status_code'', AInt statusCode)],
          HistRecord ''http.request.duration_ms'' (Millis duration)
            [(''http.method'', AStr m), (''http.route'', AStr r), (''http.status_code'', AInt statusCode)],
          HistRecord ''http.request.size_bytes'' (Bytes (length (req_body s)))
            [(''http.method'', AStr m), (''http.route'', AStr r)],
          HistRecord ''http.response.size_bytes'' (BytesOf (resp_body s))
            [(''http.method'', AStr m), (''http.route'', AStr r)],
          Log Info ''Request completed''
            (lfields @ [(''http.method'', AStr m), (''http.route'', AStr r),
                       (''http.status_code'', AInt statusCode),
                       (''http.request.duration_ms'', AInt (int duration))])]
         @ (case err of
              None \<Rightarrow> []
            | Some e \<Rightarrow>
                [Log Error ''Request error''
                   (lfields @ [(''http.method'', AStr m), (''http.path'', AStr (path s)),
                              (''error'', AStr (Error_text e))])]))"

definition incoming :: "state \<Rightarrow> event" where
  "incoming s =
     Log Info ''Incoming request''
       (trace_fields s @
        [(''http.method'', AStr (req_method s)), (''http.route'', AStr (route s)),
         (''http.path'', AStr (path s)), (''http.user_agent'', AStr (user_agent s)),
         (''http.client_ip'', AStr (client_ip s))])"

text \<open>
  The stage has no deferred function: a panic of \<open>c.Next()\<close> leaves it at once.
\<close>

definition LoggingMiddleware :: "handler \<Rightarrow> handler" where
  "LoggingMiddleware next s =
     (let start = now s;
          lfields = trace_fields s;
          s1 = emit (incoming s) s
      in case next s1 of
           (s2, Panicked v) \<Rightarrow> (s2, Panicked v)
         | (s2, Returned err) \<Rightarrow>
             (s2\<lparr>events := events s2 @ after_next lfields start err s2\<rparr>, Returned err))"

subsection \<open>\<open>TracingMiddleware\<close>\<close>

definition c_Route :: "state \<Rightarrow> string option" where
  "c_Route s = Some (route s)"

definition after_handler :: "nat \<Rightarrow> go_error option \<Rightarrow> state \<Rightarrow> event list" where
  "after_handler sid err s =
     [SpanSetAttributes sid [(''http.status_code'', AInt (resp_status s))]]
     @ (case err of
          None \<Rightarrow> []
        | Some e \<Rightarrow> [SpanRecordError sid (Error_text e) False,
                     SpanSetStatusError sid (Error_text e)])
     @ [Inject sid]"

text \<open>
  \<open>defer span.End()\<close> runs when the function returns and when a panic unwinds it; the
  statements after \<open>c.Next()\<close> run only when it returns.
\<close>

definition start_span :: "string \<Rightarrow> state \<Rightarrow> (nat \<times> bool) \<times> state" where
  "start_span serviceName s =
     (let spanName = (case c_Route s of
                        None \<Rightarrow> req_method s @ '' '' @ path s
                      | Some r \<Rightarrow> req_method s @ '' '' @ r);
          (span, s1) = tracer_Start spanName
                         [(''service.name'', AStr serviceName),
                          (''http.method'', AStr (req_method s)),
                          (''http.url'', AStr (original_url s)),
                          (''http.target'', AStr (path s)),
                          (''http.client_ip'', AStr (client_ip s)),
                          (''http.user_agent'', AStr (user_agent s))] s
      in (span, s1\<lparr>ctx_span := Some span\<rparr>))"

definition TracingMiddleware :: "string \<Rightarrow> handler \<Rightarrow> handler" where
  "TracingMiddleware serviceName next s =
     (let (span, s2) = start_span serviceName s
      in case next s2 of
           (s3, Panicked v) \<Rightarrow> (emit (SpanEnd (fst span)) s3, Panicked v)
         | (s3, Returned err) \<Rightarrow>
             (emit (SpanEnd (fst span))
                (s3\<lparr>events := events s3 @ after_handler (fst span) err s3\<rparr>),
              Returned err))"

subsection \<open>\<open>RecoveryMiddleware\<close>\<close>

text \<open>
  \<open>span.IsRecording()\<close> of the OpenTelemetry SDK: a span records from its start until its
  \<open>End\<close>; a span the sampler dropped and the no-op span of a context without one never
  record.
\<close>

definition IsRecording :: "state \<Rightarrow> (nat \<times> bool) option \<Rightarrow> bool" where
  "IsRecording s sp =
     (case sp of
        None \<Rightarrow> False
      | Some (sid, rec) \<Rightarrow> rec \<and> SpanEnd sid \<notin> set (events s))"

definition mark_span :: "string \<Rightarrow> state \<Rightarrow> event list" where
  "mark_span v s =
     (case ctx_span s of
        None \<Rightarrow> []
      | Some (sid, rec) \<Rightarrow>
          if IsRecording s (ctx_span s)
          then [SpanSetStatusError sid ''panic recovered'',
                SpanRecordError sid v True,
                SpanSetAttributes sid [(''panic.error'', AStr v),
                                       (''panic.stack'', AStr (goroutine_stack s))]]
          else [])"

definition panic_log :: "string \<Rightarrow> state \<Rightarrow> event" where
  "panic_log v s =
     Log Error ''Panic recovered''
       [(''error'', AStr v), (''stack'', AStr (goroutine_stack s)),
        (''path'', AStr (path s)), (''method'', AStr (req_method s))]"

text \<open>
  The deferred function runs \<open>recover()\<close>; after a recovered panic the function returns
  the zero value of its result, a nil error.
\<close>

definition RecoveryMiddleware :: "handler \<Rightarrow> handler" where
  "RecoveryMiddleware next s =
     (case next s of
        (s1, Returned err) \<Rightarrow> (s1, Returned err)
      | (s1, Panicked v) \<Rightarrow>
          (let s2 = s1\<lparr>events := events s1 @ mark_span v s1\<rparr>;
               s3 = emit (panic_log v s2) s2;
               s4 = c_JSON (JMap [(''error'', JStr ''Internal Server Error'')])
                      (c_Status StatusInternalServerError s3)
           in (s4, Returned None)))"

subsection \<open>The chain and the error handler of \<open>main\<close>\<close>

definition chain :: "bool \<Rightarrow> string \<Rightarrow> handler \<Rightarrow> handler" where
  "chain tracingEnabled serviceName h =
     RecoveryMiddleware
       (if tracingEnabled then TracingMiddleware serviceName (LoggingMiddleware h)
        else LoggingMiddleware h)"

definition ErrorHandler :: "go_error \<Rightarrow> state \<Rightarrow> state" where
  "ErrorHandler err s =
     (let code = (case err of FiberError c m \<Rightarrow> c | OtherError m \<Rightarrow> StatusInternalServerError);
          s1 = emit (Log Error ''Request error''
                       (trace_fields s @ [(''error'', AStr (Error_text err)),
                                          (''status_code'', AInt code),
                                          (''path'', AStr (path s))])) s
      in c_JSON (JMap [(''error'', JStr (Error_text err))]) (c_Status code s1))"

text \<open>
  One request through the application: the chain runs, and an error it returns goes to
  the error handler. \<open>None\<close> is a panic that reached the transport layer.
\<close>

definition serve :: "bool \<Rightarrow> string \<Rightarrow> handler \<Rightarrow> state \<Rightarrow> state option" where
  "serve tracingEnabled serviceName h s =
     (case chain tracingEnabled serviceName h s of
        (s1, Returned None) \<Rightarrow> Some s1
      | (s1, Returned (Some err)) \<Rightarrow> Some (ErrorHandler err s1)
      | (s1, Panicked v) \<Rightarrow> None)"

text \<open>The routes \<open>/api/panic\<close> and \<open>/debug/error\<close> of \<open>main\<close>.\<close>

definition api_panic :: handler where
  "api_panic s = (s, Panicked ''This is a simulated panic!'')"

definition debug_error :: handler where
  "debug_error s = (s, Returned (Some (FiberError 400 ''This is a deliberate error'')))"

section \<open>\<open>GetUser\<close>: the cached read\<close>

text \<open>
  \<open>rdb.Get(ctx, key).Result()\<close> fails when Redis cannot be reached and when the key is
  absent (\<open>redis.Nil\<close>). \<open>rdb.Set(ctx, key, value, ttl)\<close> stores the value with its time
  to live unless Redis cannot be reached; the second component says whether it failed.
  The spans that the instrumented clients (\<open>redisotel\<close>, \<open>otelpgx\<close>) add on their own are
  not among the events.
\<close>

definition redis_Get :: "redis \<Rightarrow> string \<Rightarrow> string + cache_val" where
  "redis_Get r key =
     (if \<not> rdb_up r then Inl ''connection refused''
      else (case rdb_entries r key of
              None \<Rightarrow> Inl ''redis: nil''
            | Some (v, ttl) \<Rightarrow> Inr v))"

definition redis_Set :: "redis \<Rightarrow> string \<Rightarrow> cache_val \<Rightarrow> nat \<Rightarrow> redis \<times> bool" where
  "redis_Set r key v ttl =
     (if \<not> rdb_up r then (r, True)
      else (r\<lparr>rdb_entries := (rdb_entries r)(key \<mapsto> (v, ttl))\<rparr>, False))"

fun Unmarshal :: "cache_val \<Rightarrow> string + user" where
  "Unmarshal (Marshal u) = Inr u"
| "Unmarshal (Malformed v) = Inl ''invalid character''"

text \<open>\<open>time.Minute\<close>, in seconds.\<close>

definition Minute :: nat where
  "Minute = 60"

text \<open>
  The value of a decimal text with an optional sign, for the \<open>id\<close> parameter that
  PostgreSQL compares with the integer column.
\<close>

definition int_of_text :: "string \<Rightarrow> int option" where
  "int_of_text t =
     (if \<not> numeric t then None
      else (case t of
              [] \<Rightarrow> None
            | ch # cs \<Rightarrow>
                (if ch = CHR ''-'' then map_option (\<lambda>n. - int n) (digitsVal 0 cs)
                 else if ch = CHR ''+'' then map_option int (digitsVal 0 cs)
                 else map_option int (digitsVal 0 t))))"

text \<open>
  \<open>QueryRow(ctx, "SELECT ... WHERE id = $1", id).Scan(...)\<close>: the connection can fail, the
  text can fail to be an integer of the column's type, and the row can be absent
  (\<open>pgx.ErrNoRows\<close>).
\<close>

definition QueryRow_user :: "postgres \<Rightarrow> string \<Rightarrow> pg_error + user" where
  "QueryRow_user db uid =
     (if \<not> pg_up db then Inl ConnError
      else (case int_of_text uid of
              None \<Rightarrow> Inl (QueryError ''invalid input syntax for type integer'')
            | Some n \<Rightarrow>
                if n < - (2 ^ 31) \<or> 2 ^ 31 \<le> n
                then Inl (QueryError ''value out of range for type integer'')
                else (case find (\<lambda>u. ID u = n) (pg_rows db) of
                        None \<Rightarrow> Inl ErrNoRows
                      | Some u \<Rightarrow> Inr u)))"

text \<open>
  Step 1 of \<open>GetUser\<close>: the cached user on a hit; on a miss the warning logged, if any.
  The warning names no cause: its \<open>zap.Error(err)\<close> reads the error of \<open>Get\<close>, which is nil
  there, and zap drops the field of a nil error.
\<close>

definition cache_lookup :: "attrs \<Rightarrow> state \<Rightarrow> string \<Rightarrow> event list + user" where
  "cache_lookup lfields s cacheKey =
     (case redis_Get (rdb s) cacheKey of
        Inl err \<Rightarrow> Inl []
      | Inr val \<Rightarrow>
          (case Unmarshal val of
             Inr u \<Rightarrow> Inr u
           | Inl err \<Rightarrow>
               Inl [Log Warn ''Failed to unmarshal cached user'' lfields]))"

definition GetUser :: "string \<Rightarrow> handler" where
  "GetUser serviceName s =
     (let lfields = trace_fields s;
          uid = param_id s;
          cacheKey = ''user:'' @ uid;
          (span, s1) = tracer_Start ''handler.get-user'' [] s;
          s2 = emit (SpanSetAttributes (fst span) [(''user.id'', AStr uid)]) s1
      in case cache_lookup lfields s2 cacheKey of
           Inr u \<Rightarrow>
             (let s3 = emit (Log Info ''Cache hit'' (lfields @ [(''id'', AStr uid)])) s2;
                  s4 = emit (SpanSetAttributes (fst span) [(''cache.hit'', ABool True)]) s3
              in (emit (SpanEnd (fst span)) (c_JSON (JUser u) s4), Returned None))
         | Inl warned \<Rightarrow>
             (let s3 = s2\<lparr>events := events s2 @ warned\<rparr>;
                  s4 = emit (Log Info ''Cache miss'' (lfields @ [(''id'', AStr uid)])) s3;
                  s5 = emit (SpanSetAttributes (fst span) [(''cache.hit'', ABool False)]) s4
              in case QueryRow_user (pg s5) uid of
                   Inl err \<Rightarrow>
                     (emit (SpanEnd (fst span))
                        (emit (Log Error ''User not found''
                                 (lfields @ [(''id'', AStr uid),
                                             (''error'', AStr (pg_error_text err))])) s5),
                      Returned (Some (FiberError StatusNotFound ''User not found'')))
                 | Inr u \<Rightarrow>
                     (let s6 = s5\<lparr>rdb := fst (redis_Set (rdb s5) cacheKey (Marshal u) (10 * Minute))\<rparr>
                      in (emit (SpanEnd (fst span)) (c_JSON (JUser u) s6), Returned None))))"

text \<open>
  A request to \<open>GetUser\<close> as the client sees it: the handler's error goes to the error
  handler of \<open>main\<close>, which sets the status and the body.
\<close>

definition GetUser_response :: "string \<Rightarrow> state \<Rightarrow> state" where
  "GetUser_response serviceName s =
     (case GetUser serviceName s of
        (s1, Returned (Some err)) \<Rightarrow> ErrorHandler err s1
      | (s1, r) \<Rightarrow> s1)"

text \<open>Recognisers of events, to count them.\<close>

fun is_Log :: "event \<Rightarrow> bool" where
  "is_Log (Log l m f) = True"
| "is_Log e = False"

fun logged_at :: "level \<Rightarrow> event \<Rightarrow> bool" where
  "logged_at lv (Log l m f) = (l = lv)"
| "logged_at lv e = False"

fun logged_msg :: "string \<Rightarrow> event \<Rightarrow> bool" where
  "logged_msg msg (Log l m f) = (m = msg)"
| "logged_msg msg e = False"

fun is_Inject :: "event \<Rightarrow> bool" where
  "is_Inject (Inject sid) = True"
| "is_Inject e = False"

fun is_SpanEnd :: "event \<Rightarrow> bool" where
  "is_SpanEnd (SpanEnd sid) = True"
| "is_SpanEnd e = False"

fun is_SpanSetStatusError :: "event \<Rightarrow> bool" where
  "is_SpanSetStatusError (SpanSetStatusError sid d) = True"
| "is_SpanSetStatusError e = False"

fun is_CounterAdd :: "event \<Rightarrow> bool" where
  "is_CounterAdd (CounterAdd n v a) = True"
| "is_CounterAdd e = False"

fun is_duration :: "event \<Rightarrow> bool" where
  "is_duration (HistRecord n v a) = (n = ''http.request.duration_ms'')"
| "is_duration e = False"

section \<open>Shutdown\<close>

text \<open>
  What a subsystem does when it is asked to stop: it needs some seconds and then reports
  success or failure, or it never answers. A call under a context with a deadline ends at
  the deadline at the latest, with an error; a call without one waits for the answer.
  The result is the time the call took and whether it returned an error; \<open>None\<close> is a
  call that never returns.
\<close>

datatype behaviour = Completes nat bool | Hangs

fun call :: "nat option \<Rightarrow> behaviour \<Rightarrow> (nat \<times> bool) option" where
  "call None (Completes t failed) = Some (t, failed)"
| "call None Hangs = None"
| "call (Some d) (Completes t failed) = (if t \<le> d then Some (t, failed) else Some (d, True))"
| "call (Some d) Hangs = Some (d, True)"

text \<open>\<open>context.WithTimeout(ctx, d)\<close>; \<open>context.Background()\<close> is \<open>None\<close>.\<close>

definition WithTimeout :: "nat option \<Rightarrow> nat \<Rightarrow> nat option" where
  "WithTimeout ctx d = (case ctx of None \<Rightarrow> Some d | Some d0 \<Rightarrow> Some (min d0 d))"

text \<open>
  The package-level handles; \<open>None\<close> is a nil handle. \<open>tracerProvider\<close> stays nil when
  tracing is disabled.
\<close>

record handles =
  server :: behaviour
  rdb_client :: "behaviour option"
  pool :: "behaviour option"
  meterProvider :: "behaviour option"
  tracerProvider :: "behaviour option"
  loggerProvider :: "behaviour option"

text \<open>
  The progress of the teardown: the log, and each call made on a subsystem with the
  seconds it took.
\<close>

record teardown =
  td_log :: "(level \<times> string) list"
  td_calls :: "(string \<times> nat) list"

definition td_info :: "string \<Rightarrow> teardown \<Rightarrow> teardown" where
  "td_info msg td = td\<lparr>td_log := td_log td @ [(Info, msg)]\<rparr>"

definition td_error :: "string \<Rightarrow> teardown \<Rightarrow> teardown" where
  "td_error msg td = td\<lparr>td_log := td_log td @ [(Error, msg)]\<rparr>"

definition td_call :: "string \<Rightarrow> nat \<Rightarrow> teardown \<Rightarrow> teardown" where
  "td_call name t td = td\<lparr>td_calls := td_calls td @ [(name, t)]\<rparr>"

definition CloseRedis :: "handles \<Rightarrow> teardown \<Rightarrow> teardown option" where
  "CloseRedis h td =
     (case rdb_client h of
        None \<Rightarrow> Some td
      | Some b \<Rightarrow>
          (case call None b of
             None \<Rightarrow> None
           | Some (t, failed) \<Rightarrow>
               Some ((if failed then td_error ''Failed to close Redis''
                      else td_info ''Redis connection closed'') (td_call ''rdb.Close'' t td))))"

definition Close :: "handles \<Rightarrow> teardown \<Rightarrow> teardown option" where
  "Close h td =
     (case pool h of
        None \<Rightarrow> Some td
      | Some b \<Rightarrow>
          (case call None b of
             None \<Rightarrow> None
           | Some (t, failed) \<Rightarrow>
               Some (td_info ''PostgreSQL connection pool closed'' (td_call ''pool.Close'' t td))))"

definition metrics_Shutdown :: "nat option \<Rightarrow> handles \<Rightarrow> teardown \<Rightarrow> teardown option" where
  "metrics_Shutdown ctx h td =
     (case meterProvider h of
        None \<Rightarrow> Some td
      | Some b \<Rightarrow>
          (case call ctx b of
             None \<Rightarrow> None
           | Some (t, failed) \<Rightarrow>
               Some ((if failed then td_error ''Error shutting down meter provider''
                      else td_info ''Meter provider shut down successfully'')
                       (td_call ''meterProvider.Shutdown'' t td))))"

definition tracer_Shutdown :: "nat option \<Rightarrow> handles \<Rightarrow> teardown \<Rightarrow> teardown option" where
  "tracer_Shutdown ctx h td =
     (case tracerProvider h of
        None \<Rightarrow> Some td
      | Some b \<Rightarrow>
          (let td1 = td_info ''Shutting down tracer provider...'' td;
               shutdownCtx = WithTimeout ctx 10
           in case call shutdownCtx b of
                None \<Rightarrow> None
              | Some (t, failed) \<Rightarrow>
                  Some ((if failed then td_error ''Error shutting down tracer provider''
                         else td_info ''Tracer provider shut down successfully'')
                          (td_call ''tracerProvider.Shutdown'' t td1))))"

definition logger_Shutdown :: "nat option \<Rightarrow> handles \<Rightarrow> teardown \<Rightarrow> teardown option" where
  "logger_Shutdown ctx h td =
     (case loggerProvider h of
        None \<Rightarrow> Some td
      | Some b \<Rightarrow>
          (let td1 = td_info ''Shutting down logger provider...'' td;
               shutdownCtx = WithTimeout ctx 10
           in case call shutdownCtx b of
                None \<Rightarrow> None
              | Some (t, failed) \<Rightarrow>
                  Some ((if failed then td_error ''Error shutting down logger provider''
                         else td_info ''Logger provider shut down successfully'')
                          (td_call ''loggerProvider.Shutdown'' t td1))))"

text \<open>
  The end of \<open>main\<close>, from the signal on: the server is shut down under a context of ten
  seconds, then the deferred calls run, last registered first. Each receives
  \<open>context.Background()\<close>. A deferred call that never returns keeps the later ones from
  running. \<open>zapLogger.Sync()\<close> at the head of \<open>logger.Shutdown\<close> flushes the console and
  is not among the calls recorded.
\<close>

definition main_shutdown :: "handles \<Rightarrow> teardown option" where
  "main_shutdown h =
     (let td0 = td_info ''Shutting down server...''
                  (td_info ''Shutting down server...'' \<lparr>td_log = [], td_calls = []\<rparr>);
          shutdownCtx = WithTimeout None 10
      in case call shutdownCtx (server h) of
           None \<Rightarrow> None
         | Some (t, failed) \<Rightarrow>
             (let td1 = (if failed then td_error ''Server shutdown error'' else (\<lambda>td. td))
                          (td_call ''app.ShutdownWithContext'' t td0);
                  td2 = td_info ''Server shutdown complete'' td1
              in Option.bind (CloseRedis h td2) (\<lambda>td3.
                 Option.bind (Close h td3) (\<lambda>td4.
                 Option.bind (metrics_Shutdown None h td4) (\<lambda>td5.
                 Option.bind (tracer_Shutdown None h td5) (\<lambda>td6.
                 logger_Shutdown None h td6))))))"

section \<open>Example inputs\<close>

definition alice :: user where
  "alice = \<lparr>ID = 1, Name = ''Alice'', Email = ''a@x.com'', CreatedAt = 0\<rparr>"

text \<open>
  A request \<open>GET /api/panic\<close> as it enters the chain: status 200, no body, no span in
  the context, nothing emitted yet; both stores reachable, one user in the table, the
  cache empty.
\<close>

definition request0 :: state where
  "request0 =
     \<lparr>req_method = ''GET'', path = ''/api/panic'', route = ''/api/panic'',
      original_url = ''/api/panic'', user_agent = ''curl'', client_ip = ''127.0.0.1'',
      query_args = Map.empty, param_id = ''1'', req_body = [],
      resp_status = 200, resp_body = None, ctx_span = None, sampler = True,
      next_span = 0, now = 0, goroutine_stack = ''goroutine 1 [running]'',
      pg = \<lparr>pg_up = True, pg_rows = [alice]\<rparr>,
      rdb = \<lparr>rdb_up = True, rdb_entries = Map.empty\<rparr>,
      events = []\<rparr>"

text \<open>
  Handles after a successful start, where closing the connection pool takes a minute and
  everything else answers at once.
\<close>

definition slow_pool :: handles where
  "slow_pool =
     \<lparr>server = Completes 1 False,
      rdb_client = Some (Completes 0 False),
      pool = Some (Completes 60 False),
      meterProvider = Some (Completes 0 False),
      tracerProvider = Some (Completes 0 False),
      loggerProvider = Some (Completes 0 False)\<rparr>"

text \<open>
  Handles where the trace exporter never answers and the meter provider and Redis report
  a failure.
\<close>

definition failing_exporters :: handles where
  "failing_exporters =
     \<lparr>server = Completes 1 False,
      rdb_client = Some (Completes 0 True),
      pool = Some (Completes 2 False),
      meterProvider = Some (Completes 3 True),
      tracerProvider = Some Hangs,
      loggerProvider = Some (Completes 1 False)\<rparr>"

section \<open>Pagination: the verified properties\<close>

lemma digitsVal_None: "\<not> list_all isDigit ds \<Longrightarrow> digitsVal n ds = None"
  by (induction ds arbitrary: n) auto

text \<open>
  With a limit between 0 and 100 and a page up to \<open>2 ^ 56\<close> the product does not wrap.
\<close>

lemma offset_exact:
  fixes l p :: go_int
  assumes "0 \<le> sint l" "sint l \<le> 100" "1 \<le> sint p" "sint p \<le> 2 ^ 56"
  shows "sint ((p - 1) * l) = (sint p - 1) * sint l"
proof -
  have a: "sint (p - 1) = sint p - 1"
    using assms by (simp add: sint_word_ariths signed_take_bit_int_eq_self)
  have "(sint p - 1) * sint l \<le> 2 ^ 56 * 100"
    using assms by (intro mult_mono) auto
  moreover have "0 \<le> (sint p - 1) * sint l"
    using assms by simp
  ultimately show ?thesis
    using a by (simp add: sint_word_ariths signed_take_bit_int_eq_self)
qed

lemma pagination_parts:
  assumes "pagination q = (limit, page, offset)"
  shows "limit = (if 100 <s fst (Atoi (Query q ''limit'' ''10'')) then 100
                  else fst (Atoi (Query q ''limit'' ''10'')))"
    and "page = (if fst (Atoi (Query q ''page'' ''1'')) <s 1 then 1
                 else fst (Atoi (Query q ''page'' ''1'')))"
    and "offset = (page - 1) * limit"
  using assms by (auto simp: pagination_def Let_def)

text \<open>
  C5. The pagination parameters of \<open>ListUsers\<close> are clamped before use: a parsed \<open>limit\<close>
  above 100 becomes 100 and any other is kept, a parsed \<open>page\<close> below 1 becomes 1 and any
  other is kept, so the limit never exceeds 100 and the page is at least 1; the offset is
  \<open>(page - 1) * limit\<close> in Go's \<open>int\<close> arithmetic, which is the product of the integers
  whenever the limit is not negative and the page is at most \<open>2 ^ 56\<close>.
\<close>

theorem pagination_clamped:
  assumes "pagination q = (limit, page, offset)"
  shows "(100 <s fst (Atoi (Query q ''limit'' ''10'')) \<longrightarrow> limit = 100) \<and>
         (\<not> 100 <s fst (Atoi (Query q ''limit'' ''10'')) \<longrightarrow>
            limit = fst (Atoi (Query q ''limit'' ''10''))) \<and>
         (fst (Atoi (Query q ''page'' ''1'')) <s 1 \<longrightarrow> page = 1) \<and>
         (\<not> fst (Atoi (Query q ''page'' ''1'')) <s 1 \<longrightarrow>
            page = fst (Atoi (Query q ''page'' ''1''))) \<and>
         sint limit \<le> 100 \<and> 1 \<le> sint page \<and>
         offset = (page - 1) * limit \<and>
         (0 \<le> sint limit \<and> sint page \<le> 2 ^ 56 \<longrightarrow>
            sint offset = (sint page - 1) * sint limit)"
proof -
  have l: "limit = (if 100 <s fst (Atoi (Query q ''limit'' ''10'')) then 100
                    else fst (Atoi (Query q ''limit'' ''10'')))"
    and p: "page = (if fst (Atoi (Query q ''page'' ''1'')) <s 1 then 1
                    else fst (Atoi (Query q ''page'' ''1'')))"
    and off: "offset = (page - 1) * limit"
    using pagination_parts [OF assms] by blast+
  have lb: "sint limit \<le> 100"
    unfolding l by (simp add: word_sless_alt)
  have pb: "1 \<le> sint page"
    unfolding p by (simp add: word_sless_alt)
  have "0 \<le> sint limit \<and> sint page \<le> 2 ^ 56 \<longrightarrow> sint offset = (sint page - 1) * sint limit"
    unfolding off using offset_exact[of limit page] lb pb by blast
  with l p off lb pb show ?thesis by simp
qed

theorem pagination_clamped_witness:
  "pagination [''limit'' \<mapsto> ''500'', ''page'' \<mapsto> ''-3''] = (100, 1, 0) \<and>
   100 <s fst (Atoi (Query [''limit'' \<mapsto> ''500'', ''page'' \<mapsto> ''-3''] ''limit'' ''10'')) \<and>
   fst (Atoi (Query [''limit'' \<mapsto> ''500'', ''page'' \<mapsto> ''-3''] ''page'' ''1'')) <s 1 \<and>
   sint (100 :: go_int) \<le> 100 \<and> (0 :: go_int) = (1 - 1) * 100"
proof -
  have h: "pagination [''limit'' \<mapsto> ''500'', ''page'' \<mapsto> ''-3''] = (100, 1, 0)"
    by (simp add: pagination_def Query_def Atoi_def isDigit_def word_sless_alt Let_def)
  have "100 <s fst (Atoi (Query [''limit'' \<mapsto> ''500'', ''page'' \<mapsto> ''-3''] ''limit'' ''10''))"
    by (simp add: Query_def Atoi_def isDigit_def word_sless_alt Let_def)
  moreover have "fst (Atoi (Query [''limit'' \<mapsto> ''500'', ''page'' \<mapsto> ''-3''] ''page'' ''1'')) <s 1"
    by (simp add: Query_def Atoi_def isDigit_def word_sless_alt Let_def)
  ultimately show ?thesis
    using h pagination_clamped [OF h] by simp
qed

section \<open>Values that are not numeric: the verified properties\<close>

lemma decimal_ge: "n \<le> decimal n ds"
proof (induction ds arbitrary: n)
  case Nil
  then show ?case by simp
next
  case (Cons ch cs)
  have "n \<le> n * 10 + ((of_char ch :: nat) - 48)" by simp
  also have "\<dots> \<le> decimal (n * 10 + ((of_char ch :: nat) - 48)) cs" by (rule Cons.IH)
  finally show ?case by simp
qed

text \<open>
  \<open>ParseUint\<close> reaches the first byte that is not a digit when the digits before it do not
  overflow, and stops with a range error when they do.
\<close>

lemma ParseUint_digits_syntax:
  assumes "\<not> list_all isDigit ds" and "decimal n (takeWhile isDigit ds) \<le> maxUint64"
  shows "ParseUint_digits n ds = (0, Some ErrSyntax)"
  using assms
proof (induction ds arbitrary: n)
  case Nil
  then show ?case by simp
next
  case (Cons ch cs)
  show ?case
  proof (cases "isDigit ch")
    case False
    then show ?thesis by simp
  next
    case True
    let ?m = "n * 10 + ((of_char ch :: nat) - 48)"
    from True Cons.prems(2) have d: "decimal ?m (takeWhile isDigit cs) \<le> maxUint64" by simp
    with decimal_ge [of ?m "takeWhile isDigit cs"] have m: "?m \<le> maxUint64" by simp
    then have c: "\<not> n \<ge> maxUint64 div 10 + 1" by (simp add: maxUint64_def)
    from True Cons.prems(1) have "\<not> list_all isDigit cs" by simp
    from Cons.IH [OF this d] True m c show ?thesis by simp
  qed
qed

lemma ParseUint_digits_range:
  assumes "decimal n (takeWhile isDigit ds) > maxUint64" and "n \<le> maxUint64"
  shows "ParseUint_digits n ds = (maxUint64, Some ErrRange)"
  using assms
proof (induction ds arbitrary: n)
  case Nil
  then show ?case by simp
next
  case (Cons ch cs)
  show ?case
  proof (cases "isDigit ch")
    case False
    with Cons.prems show ?thesis by simp
  next
    case True
    let ?m = "n * 10 + ((of_char ch :: nat) - 48)"
    from True Cons.prems(1) have d: "decimal ?m (takeWhile isDigit cs) > maxUint64" by simp
    show ?thesis
    proof (cases "?m \<le> maxUint64")
      case le: True
      then have "\<not> n \<ge> maxUint64 div 10 + 1" by (simp add: maxUint64_def)
      with Cons.IH [OF d le] True le show ?thesis by simp
    next
      case False
      then have gt: "maxUint64 < ?m" by simp
      have "ParseUint_digits n (ch # cs) =
              (if n \<ge> maxUint64 div 10 + 1 then (maxUint64, Some ErrRange)
               else if maxUint64 < ?m then (maxUint64, Some ErrRange)
               else ParseUint_digits ?m cs)"
        using True by (simp only: ParseUint_digits.simps not_True_eq_False if_False)
      also have "\<dots> = (maxUint64, Some ErrRange)"
        using gt by (simp only: if_True if_cancel)
      finally show ?thesis .
    qed
  qed
qed

lemma Atoi_syntax_error:
  assumes "\<not> numeric v" and "leading_digits v \<le> maxUint64"
  shows "Atoi v = (0, Some ErrSyntax)"
proof (cases v)
  case Nil
  then show ?thesis by (simp add: Atoi_def ParseInt_def)
next
  case (Cons ch cs)
  define ds where "ds = (if ch = CHR ''-'' \<or> ch = CHR ''+'' then cs else v)"
  have u: "unsigned_part v = ds"
    by (simp add: unsigned_part_def Cons ds_def)
  from assms(1) Cons have bad: "ds = [] \<or> \<not> list_all isDigit ds"
    by (auto simp: numeric_def ds_def Let_def)
  have fast: "ds = [] \<or> digitsVal 0 ds = None"
    using bad digitsVal_None [of ds 0] by auto
  have "ds = [] \<or> ParseUint_digits 0 ds = (0, Some ErrSyntax)"
    using bad assms(2) ParseUint_digits_syntax [of ds 0] by (auto simp: leading_digits_def u)
  then have slow: "ParseUint ds = (0, Some ErrSyntax)"
    by (auto simp: ParseUint_def)
  have s1: "(if ch = CHR ''+'' \<or> ch = CHR ''-'' then cs else v) = ds"
    by (auto simp: ds_def)
  have p: "ParseInt v = (0, Some ErrSyntax)"
    using slow by (auto simp: ParseInt_def Cons ds_def Let_def split: if_splits)
  show ?thesis
  proof (cases "0 < length v \<and> length v < 19")
    case True
    then show ?thesis
      unfolding Atoi_def using fast by (auto simp: Cons ds_def Let_def)
  next
    case False
    with p show ?thesis
      by (auto simp: Atoi_def)
  qed
qed

text \<open>\<open>Atoi\<close> on some texts, among them the ends of the range of \<open>int\<close>.\<close>

lemma Atoi_examples:
  "Atoi ''500'' = (500, None)"
  "Atoi ''-3'' = (- 3, None)"
  "Atoi ''12x'' = (0, Some ErrSyntax)"
  "Atoi ''-'' = (0, Some ErrSyntax)"
  "Atoi ''0000000000000000000000012'' = (12, None)"
  "Atoi ''9223372036854775808'' = (2 ^ 63 - 1, Some ErrRange)"
  "Atoi ''-9223372036854775808'' = (- (2 ^ 63), None)"
  "Atoi ''99999999999999999999'' = (2 ^ 63 - 1, Some ErrRange)"
  "Atoi ''-99999999999999999999x'' = (- (2 ^ 63), Some ErrRange)"
  by (simp_all add: Atoi_def ParseInt_def ParseUint_def isDigit_def maxUint64_def Let_def)

lemma decimal_bound:
  assumes "list_all isDigit ds"
  shows "decimal n ds < (n + 1) * 10 ^ length ds"
  using assms
proof (induction ds arbitrary: n)
  case Nil
  then show ?case by simp
next
  case (Cons ch cs)
  from Cons.prems have cs: "list_all isDigit cs" and "isDigit ch"
    by simp_all
  then have d: "(of_char ch :: nat) - 48 \<le> 9"
    unfolding isDigit_def by linarith
  have "decimal n (ch # cs) < (n * 10 + ((of_char ch :: nat) - 48) + 1) * 10 ^ length cs"
    using Cons.IH [OF cs] by simp
  also have "\<dots> \<le> ((n + 1) * 10) * 10 ^ length cs"
    using d by (intro mult_right_mono) auto
  finally show ?case by (simp add: algebra_simps)
qed

lemma leading_digits_short:
  assumes "length v < 19"
  shows "leading_digits v \<le> maxUint64"
proof -
  let ?p = "takeWhile isDigit (unsigned_part v)"
  have "length (unsigned_part v) \<le> length v"
    by (cases v) (auto simp: unsigned_part_def)
  moreover have "length ?p \<le> length (unsigned_part v)"
    by (rule length_takeWhile_le)
  ultimately have l: "length ?p \<le> 18" using assms by simp
  have "list_all isDigit ?p"
    by (simp add: list_all_iff) (meson set_takeWhileD)
  from decimal_bound [OF this, of 0] have "leading_digits v < 10 ^ length ?p"
    by (simp add: leading_digits_def)
  also have "(10::nat) ^ length ?p \<le> 10 ^ 18"
    using l by (intro power_increasing) auto
  finally show ?thesis by (simp add: maxUint64_def)
qed

text \<open>
  When the digits before the first byte that is not a digit overflow 64 bits, \<open>Atoi\<close>
  returns the nearest \<open>int\<close> with a range error, whatever follows the digits.
\<close>

lemma Atoi_range_error:
  assumes "leading_digits v > maxUint64"
  shows "Atoi v = (if hd v = CHR ''-'' then - (2 ^ 63) else 2 ^ 63 - 1, Some ErrRange)"
proof -
  have len: "\<not> length v < 19"
    using assms leading_digits_short [of v] by auto
  then obtain ch cs where v: "v = ch # cs"
    by (cases v) auto
  define ds where "ds = (if ch = CHR ''+'' \<or> ch = CHR ''-'' then cs else v)"
  have u: "unsigned_part v = ds"
    by (auto simp: unsigned_part_def v ds_def)
  have r: "ParseUint_digits 0 ds = (maxUint64, Some ErrRange)"
    using assms by (intro ParseUint_digits_range) (simp_all add: leading_digits_def u)
  have "ds \<noteq> []"
    using assms by (auto simp: leading_digits_def u maxUint64_def)
  with r have "ParseUint ds = (maxUint64, Some ErrRange)"
    by (simp add: ParseUint_def)
  then have "ParseInt v = (if ch = CHR ''-'' then - (2 ^ 63) else 2 ^ 63 - 1, Some ErrRange)"
    by (auto simp: ParseInt_def v ds_def Let_def maxUint64_def)
  with len show ?thesis
    by (simp add: Atoi_def v)
qed

text \<open>
  C10, as the code has it. When the \<open>limit\<close> query value is present, not empty, not
  numeric, and its digits before the first byte that is not a digit do not exceed the
  largest unsigned 64-bit number, \<open>Atoi\<close> returns 0 with a syntax error that is discarded:
  the limit is 0 (not the default 10) and the offset is 0, so the store query runs with
  \<open>LIMIT 0\<close>; when the store answers, it returns no rows and the response carries an empty
  user list. Likewise such a \<open>page\<close> value parses to 0 and is clamped to 1.
\<close>

theorem syntax_error_limit_page:
  assumes "pagination (query_args s) = (limit, page, offset)"
  shows "(\<forall>v. query_args s ''limit'' = Some v \<and> v \<noteq> [] \<and> \<not> numeric v \<and>
              leading_digits v \<le> maxUint64 \<longrightarrow>
            Atoi v = (0, Some ErrSyntax) \<and> limit = 0 \<and> offset = 0 \<and>
            (pg_up (pg s) \<longrightarrow>
               Query_users (pg s) limit offset = Inr [] \<and>
               snd (ListUsers serviceName s) = Returned None \<and>
               resp_body (fst (ListUsers serviceName s)) = Some (users_json [] 0 page))) \<and>
         (\<forall>w. query_args s ''page'' = Some w \<and> w \<noteq> [] \<and> \<not> numeric w \<and>
              leading_digits w \<le> maxUint64 \<longrightarrow>
            Atoi w = (0, Some ErrSyntax) \<and> page = 1)"
proof (intro conjI allI impI)
  fix v
  assume v: "query_args s ''limit'' = Some v \<and> v \<noteq> [] \<and> \<not> numeric v \<and>
              leading_digits v \<le> maxUint64"
  then show a: "Atoi v = (0, Some ErrSyntax)" by (simp add: Atoi_syntax_error)
  from v have "Query (query_args s) ''limit'' ''10'' = v" by (simp add: Query_def)
  with a pagination_parts(1) [OF assms] show l: "limit = 0" by (simp add: word_sless_alt)
  from pagination_parts(3) [OF assms] l show o: "offset = 0" by simp
  assume up: "pg_up (pg s)"
  with l o show "Query_users (pg s) limit offset = Inr []" by (simp add: Query_users_def)
  from up l o assms show "snd (ListUsers serviceName s) = Returned None"
    by (simp add: ListUsers_def Let_def tracer_Start_def emit_def Query_users_def c_JSON_def)
  from up l o assms show "resp_body (fst (ListUsers serviceName s)) = Some (users_json [] 0 page)"
    by (simp add: ListUsers_def Let_def tracer_Start_def emit_def Query_users_def c_JSON_def)
next
  fix w
  assume w: "query_args s ''page'' = Some w \<and> w \<noteq> [] \<and> \<not> numeric w \<and>
              leading_digits w \<le> maxUint64"
  then show a: "Atoi w = (0, Some ErrSyntax)" by (simp add: Atoi_syntax_error)
  from w have "Query (query_args s) ''page'' ''1'' = w" by (simp add: Query_def)
  with a pagination_parts(2) [OF assms] show "page = 1" by (simp add: word_sless_alt)
qed

theorem syntax_error_limit_page_witness:
  "pagination (query_args (request0\<lparr>query_args := [''limit'' \<mapsto> ''12abc'', ''page'' \<mapsto> ''x1'']\<rparr>)) = (0, 1, 0) \<and>
   \<not> numeric ''12abc'' \<and> leading_digits ''12abc'' = 12 \<and>
   \<not> numeric ''x1'' \<and> leading_digits ''x1'' = 0 \<and>
   pg_up (pg (request0\<lparr>query_args := [''limit'' \<mapsto> ''12abc'', ''page'' \<mapsto> ''x1'']\<rparr>)) \<and>
   Atoi ''12abc'' = (0, Some ErrSyntax) \<and>
   Query_users (pg (request0\<lparr>query_args := [''limit'' \<mapsto> ''12abc'', ''page'' \<mapsto> ''x1'']\<rparr>)) 0 0 = Inr [] \<and>
   resp_body (fst (ListUsers ''svc'' (request0\<lparr>query_args := [''limit'' \<mapsto> ''12abc'', ''page'' \<mapsto> ''x1'']\<rparr>)))
     = Some (users_json [] 0 1)"
proof -
  let ?s = "request0\<lparr>query_args := [''limit'' \<mapsto> ''12abc'', ''page'' \<mapsto> ''x1'']\<rparr>"
  have h: "pagination (query_args ?s) = (0, 1, 0)"
    by (simp add: pagination_def Query_def Atoi_def isDigit_def word_sless_alt Let_def)
  have n1: "\<not> numeric ''12abc''" "leading_digits ''12abc'' = 12"
    by (simp_all add: numeric_def leading_digits_def unsigned_part_def isDigit_def)
  have n2: "\<not> numeric ''x1''" "leading_digits ''x1'' = 0"
    by (simp_all add: numeric_def leading_digits_def unsigned_part_def isDigit_def)
  have m: "leading_digits ''12abc'' \<le> maxUint64"
    by (simp add: n1 maxUint64_def)
  have q1: "query_args ?s ''limit'' = Some ''12abc''" by simp
  have up: "pg_up (pg ?s)" by (simp add: request0_def)
  from syntax_error_limit_page [OF h, of "''svc''"] q1 n1(1) m up
  show ?thesis using h n1 n2 by auto
qed

text \<open>
  Two values of \<open>limit\<close> that are present and not numeric and do not give 0: the empty
  value, for which \<open>c.Query\<close> returns the default and the limit is 10, and twenty nines
  followed by a letter, for which \<open>Atoi\<close> returns the largest \<open>int\<close> and the limit is 100.
\<close>

theorem non_numeric_limit_not_zero:
  "\<not> numeric [] \<and>
   pagination [''limit'' \<mapsto> []] = (10, 1, 0) \<and>
   \<not> numeric ''99999999999999999999x'' \<and>
   Atoi ''99999999999999999999x'' = (2 ^ 63 - 1, Some ErrRange) \<and>
   pagination [''limit'' \<mapsto> ''99999999999999999999x''] = (100, 1, 0)"
proof -
  have "\<not> numeric []" "\<not> numeric ''99999999999999999999x''"
    by (simp_all add: numeric_def isDigit_def)
  moreover have "pagination [''limit'' \<mapsto> []] = (10, 1, 0)"
    by (simp add: pagination_def Query_def Atoi_def isDigit_def Let_def word_sless_alt)
  moreover have a: "Atoi ''99999999999999999999x'' = (2 ^ 63 - 1, Some ErrRange)"
    by (simp add: Atoi_def ParseInt_def ParseUint_def isDigit_def maxUint64_def Let_def)
  moreover have "pagination [''limit'' \<mapsto> ''99999999999999999999x''] = (100, 1, 0)"
    by (simp add: pagination_def Query_def isDigit_def a Let_def word_sless_alt)
       (simp add: Atoi_def isDigit_def)
  ultimately show ?thesis by simp
qed

section \<open>The logging and metrics stage: the verified properties\<close>

lemma LoggingMiddleware_Returned:
  assumes "next (emit (incoming s) s) = (s2, Returned err)"
  shows "LoggingMiddleware next s =
           (s2\<lparr>events := events s2 @ after_next (trace_fields s) (now s) err s2\<rparr>, Returned err)"
  using assms by (simp add: LoggingMiddleware_def Let_def)

lemma LoggingMiddleware_Panicked:
  assumes "next (emit (incoming s) s) = (s2, Panicked v)"
  shows "LoggingMiddleware next s = (s2, Panicked v)"
  using assms by (simp add: LoggingMiddleware_def Let_def)

text \<open>
  C6. When the rest of the chain returns an error and the response status is still 200,
  the status the stage records is the error's own code for a \<open>*fiber.Error\<close> and 500 for
  any other error; when the response status is not 200, or there is no error, it is the
  response status. That status is the one on the request counter, on the duration
  observation and in the completion entry.
\<close>

theorem effective_status_recorded:
  assumes "next (emit (incoming s) s) = (s2, Returned err)"
  shows "(\<forall>code msg. err = Some (FiberError code msg) \<and> resp_status s2 = StatusOK \<longrightarrow>
            effective_status err (resp_status s2) = code) \<and>
         (\<forall>msg. err = Some (OtherError msg) \<and> resp_status s2 = StatusOK \<longrightarrow>
            effective_status err (resp_status s2) = StatusInternalServerError) \<and>
         (resp_status s2 \<noteq> StatusOK \<longrightarrow> effective_status err (resp_status s2) = resp_status s2) \<and>
         (err = None \<longrightarrow> effective_status err (resp_status s2) = resp_status s2) \<and>
         events (fst (LoggingMiddleware next s)) =
           events s2 @ after_next (trace_fields s) (now s) err s2 \<and>
         CounterAdd ''http.requests_total'' (Count 1)
           [(''http.method'', AStr (req_method s2)), (''http.route'', AStr (route s2)),
            (''http.status_code'', AInt (effective_status err (resp_status s2)))]
           \<in> set (after_next (trace_fields s) (now s) err s2) \<and>
         HistRecord ''http.request.duration_ms'' (Millis (now s2 - now s))
           [(''http.method'', AStr (req_method s2)), (''http.route'', AStr (route s2)),
            (''http.status_code'', AInt (effective_status err (resp_status s2)))]
           \<in> set (after_next (trace_fields s) (now s) err s2) \<and>
         Log Info ''Request completed''
           (trace_fields s @
            [(''http.method'', AStr (req_method s2)), (''http.route'', AStr (route s2)),
             (''http.status_code'', AInt (effective_status err (resp_status s2))),
             (''http.request.duration_ms'', AInt (int (now s2 - now s)))])
           \<in> set (after_next (trace_fields s) (now s) err s2)"
proof -
  have "events (fst (LoggingMiddleware next s)) =
           events s2 @ after_next (trace_fields s) (now s) err s2"
    using LoggingMiddleware_Returned [of "next" s s2 err] assms by simp
  moreover have "\<forall>code msg. err = Some (FiberError code msg) \<and> resp_status s2 = StatusOK \<longrightarrow>
            effective_status err (resp_status s2) = code"
    by (simp add: effective_status_def)
  moreover have "\<forall>msg. err = Some (OtherError msg) \<and> resp_status s2 = StatusOK \<longrightarrow>
            effective_status err (resp_status s2) = StatusInternalServerError"
    by (simp add: effective_status_def)
  moreover have "resp_status s2 \<noteq> StatusOK \<longrightarrow> effective_status err (resp_status s2) = resp_status s2"
    by (simp add: effective_status_def)
  moreover have "err = None \<longrightarrow> effective_status err (resp_status s2) = resp_status s2"
    by (simp add: effective_status_def)
  ultimately show ?thesis
    by (simp add: after_next_def Let_def)
qed

theorem effective_status_recorded_witness:
  "debug_error (emit (incoming request0) request0)
     = (emit (incoming request0) request0, Returned (Some (FiberError 400 ''This is a deliberate error''))) \<and>
   resp_status (emit (incoming request0) request0) = StatusOK \<and>
   effective_status (Some (FiberError 400 ''This is a deliberate error''))
     (resp_status (emit (incoming request0) request0)) = 400"
proof -
  have h: "debug_error (emit (incoming request0) request0)
     = (emit (incoming request0) request0, Returned (Some (FiberError 400 ''This is a deliberate error'')))"
    by (simp add: debug_error_def)
  have st: "resp_status (emit (incoming request0) request0) = StatusOK"
    by (simp add: emit_def request0_def StatusOK_def)
  from effective_status_recorded [of debug_error request0 "emit (incoming request0) request0"
      "Some (FiberError 400 ''This is a deliberate error'')"] h st
  show ?thesis by blast
qed

lemma after_next_counts:
  "length (filter is_CounterAdd (after_next lf st err s)) = 1"
  "length (filter is_duration (after_next lf st err s)) = 1"
  "length (filter (logged_msg ''Request completed'') (after_next lf st err s)) = 1"
  "length (filter (logged_msg ''Incoming request'') (after_next lf st err s)) = 0"
  "length (filter (logged_msg ''Request error'') (after_next lf st err s)) = (if err = None then 0 else 1)"
  "length (filter is_Log (after_next lf st err s)) = (if err = None then 1 else 2)"
  by (simp_all add: after_next_def Let_def split: option.split)


section \<open>The logging and metrics stage on every outcome\<close>

text \<open>
  C1, as the code has it. The stage emits exactly one entry "Incoming request" before the
  rest of the chain runs. When the rest of the chain returns, with or without an error,
  the stage then emits exactly one counter increment, one duration observation and one
  entry "Request completed", and one entry "Request error" exactly when there is an
  error: one or two log entries. When the rest of the chain panics, the stage emits
  nothing more: the panic leaves it before the metrics and the completion entry.
\<close>

theorem logging_stage_emits_once:
  "events (emit (incoming s) s) = events s @ [incoming s] \<and>
   logged_msg ''Incoming request'' (incoming s) \<and>
   (\<forall>s2 err. next (emit (incoming s) s) = (s2, Returned err) \<longrightarrow>
      LoggingMiddleware next s =
        (s2\<lparr>events := events s2 @ after_next (trace_fields s) (now s) err s2\<rparr>, Returned err) \<and>
      length (filter is_CounterAdd (after_next (trace_fields s) (now s) err s2)) = 1 \<and>
      length (filter is_duration (after_next (trace_fields s) (now s) err s2)) = 1 \<and>
      length (filter (logged_msg ''Request completed'') (after_next (trace_fields s) (now s) err s2)) = 1 \<and>
      length (filter (logged_msg ''Incoming request'') (after_next (trace_fields s) (now s) err s2)) = 0 \<and>
      length (filter (logged_msg ''Request error'') (after_next (trace_fields s) (now s) err s2))
        = (if err = None then 0 else 1) \<and>
      length (filter is_Log (after_next (trace_fields s) (now s) err s2))
        = (if err = None then 1 else 2)) \<and>
   (\<forall>s2 v. next (emit (incoming s) s) = (s2, Panicked v) \<longrightarrow>
      LoggingMiddleware next s = (s2, Panicked v))"
proof (intro conjI allI impI)
  show "events (emit (incoming s) s) = events s @ [incoming s]"
    by (simp add: emit_def)
  show "logged_msg ''Incoming request'' (incoming s)"
    by (simp add: incoming_def)
next
  fix s2 err
  assume r: "next (emit (incoming s) s) = (s2, Returned err)"
  show "LoggingMiddleware next s =
        (s2\<lparr>events := events s2 @ after_next (trace_fields s) (now s) err s2\<rparr>, Returned err)"
    using LoggingMiddleware_Returned [of "next" s s2 err] r by simp
  show "length (filter is_CounterAdd (after_next (trace_fields s) (now s) err s2)) = 1"
    by (rule after_next_counts)
  show "length (filter is_duration (after_next (trace_fields s) (now s) err s2)) = 1"
    by (rule after_next_counts)
  show "length (filter (logged_msg ''Request completed'') (after_next (trace_fields s) (now s) err s2)) = 1"
    by (rule after_next_counts)
  show "length (filter (logged_msg ''Incoming request'') (after_next (trace_fields s) (now s) err s2)) = 0"
    by (rule after_next_counts)
  show "length (filter (logged_msg ''Request error'') (after_next (trace_fields s) (now s) err s2))
        = (if err = None then 0 else 1)"
    by (rule after_next_counts)
  show "length (filter is_Log (after_next (trace_fields s) (now s) err s2))
        = (if err = None then 1 else 2)"
    by (rule after_next_counts)
next
  fix s2 v
  assume "next (emit (incoming s) s) = (s2, Panicked v)"
  then show "LoggingMiddleware next s = (s2, Panicked v)"
    using LoggingMiddleware_Panicked [of "next" s s2 v] by simp
qed

theorem logging_stage_emits_once_witness:
  "debug_error (emit (incoming request0) request0)
     = (emit (incoming request0) request0, Returned (Some (FiberError 400 ''This is a deliberate error''))) \<and>
   api_panic (emit (incoming request0) request0)
     = (emit (incoming request0) request0, Panicked ''This is a simulated panic!'') \<and>
   length (filter is_CounterAdd (events (fst (LoggingMiddleware debug_error request0)))) = 1 \<and>
   length (filter (logged_msg ''Request completed'') (events (fst (LoggingMiddleware debug_error request0)))) = 1 \<and>
   LoggingMiddleware api_panic request0
     = (emit (incoming request0) request0, Panicked ''This is a simulated panic!'')"
proof -
  let ?s1 = "emit (incoming request0) request0"
  have h: "debug_error ?s1 = (?s1, Returned (Some (FiberError 400 ''This is a deliberate error'')))"
    by (simp add: debug_error_def)
  have p: "api_panic ?s1 = (?s1, Panicked ''This is a simulated panic!'')"
    by (simp add: api_panic_def)
  have e: "events ?s1 = [incoming request0]"
    by (simp add: emit_def request0_def)
  have i: "\<not> is_CounterAdd (incoming request0)" "\<not> logged_msg ''Request completed'' (incoming request0)"
    by (simp_all add: incoming_def)
  from logging_stage_emits_once [of request0 debug_error] h
  have a: "LoggingMiddleware debug_error request0 =
        (?s1\<lparr>events := events ?s1 @ after_next (trace_fields request0) (now request0)
            (Some (FiberError 400 ''This is a deliberate error'')) ?s1\<rparr>,
         Returned (Some (FiberError 400 ''This is a deliberate error'')))"
    and b: "length (filter is_CounterAdd (after_next (trace_fields request0) (now request0)
            (Some (FiberError 400 ''This is a deliberate error'')) ?s1)) = 1"
    and c: "length (filter (logged_msg ''Request completed'') (after_next (trace_fields request0) (now request0)
            (Some (FiberError 400 ''This is a deliberate error'')) ?s1)) = 1"
    by blast+
  from logging_stage_emits_once [of request0 api_panic] p
  have d: "LoggingMiddleware api_panic request0 = (?s1, Panicked ''This is a simulated panic!'')"
    by blast
  show ?thesis
    using h p d by (simp add: a e i b c)
qed

text \<open>
  The route \<open>/api/panic\<close> through the whole chain, tracing enabled: one entry "Incoming
  request", no entry "Request completed", no counter increment, no duration observation.
\<close>

theorem panic_request_not_counted:
  "length (filter (logged_msg ''Incoming request'') (events (fst (chain True ''svc'' api_panic request0)))) = 1 \<and>
   length (filter (logged_msg ''Request completed'') (events (fst (chain True ''svc'' api_panic request0)))) = 0 \<and>
   length (filter is_CounterAdd (events (fst (chain True ''svc'' api_panic request0)))) = 0 \<and>
   length (filter is_duration (events (fst (chain True ''svc'' api_panic request0)))) = 0"
  by (simp add: chain_def RecoveryMiddleware_def TracingMiddleware_def LoggingMiddleware_def
      api_panic_def start_span_def tracer_Start_def emit_def Let_def request0_def incoming_def
      mark_span_def IsRecording_def panic_log_def c_JSON_def c_Status_def c_Route_def trace_fields_def)


section \<open>The recovery and tracing stages on a panic\<close>

lemma chain_api_panic_events:
  "events (fst (chain True ''svc'' api_panic request0)) =
     [SpanStart 0 ''GET /api/panic''
        [(''service.name'', AStr ''svc''), (''http.method'', AStr ''GET''),
         (''http.url'', AStr ''/api/panic''), (''http.target'', AStr ''/api/panic''),
         (''http.client_ip'', AStr ''127.0.0.1''), (''http.user_agent'', AStr ''curl'')],
      Log Info ''Incoming request''
        [(''trace_id'', AInt 0), (''span_id'', AInt 0), (''http.method'', AStr ''GET''),
         (''http.route'', AStr ''/api/panic''), (''http.path'', AStr ''/api/panic''),
         (''http.user_agent'', AStr ''curl''), (''http.client_ip'', AStr ''127.0.0.1'')],
      SpanEnd 0,
      Log Error ''Panic recovered''
        [(''error'', AStr ''This is a simulated panic!''),
         (''stack'', AStr ''goroutine 1 [running]''),
         (''path'', AStr ''/api/panic''), (''method'', AStr ''GET'')]]"
  by (simp add: chain_def RecoveryMiddleware_def TracingMiddleware_def LoggingMiddleware_def
      api_panic_def start_span_def tracer_Start_def emit_def Let_def request0_def incoming_def
      mark_span_def IsRecording_def panic_log_def c_JSON_def c_Status_def c_Route_def
      trace_fields_def)

lemma chain_api_panic_response:
  "snd (chain True ''svc'' api_panic request0) = Returned None"
  "resp_status (fst (chain True ''svc'' api_panic request0)) = 500"
  "resp_body (fst (chain True ''svc'' api_panic request0))
     = Some (JMap [(''error'', JStr ''Internal Server Error'')])"
  "ctx_span (fst (chain True ''svc'' api_panic request0)) = Some (0, True)"
  by (simp_all add: chain_def RecoveryMiddleware_def TracingMiddleware_def LoggingMiddleware_def
      api_panic_def start_span_def tracer_Start_def emit_def Let_def request0_def
      c_JSON_def c_Status_def StatusInternalServerError_def)

text \<open>
  After a panic has unwound the tracing stage, the span that stage started has been
  ended: the recovery stage, which runs later, finds it no longer recording.
\<close>

lemma TracingMiddleware_Panicked_ended:
  assumes "TracingMiddleware serviceName next s = (s', Panicked v)"
  shows "SpanEnd (next_span s) \<in> set (events s')"
  using assms
  by (auto simp: TracingMiddleware_def start_span_def tracer_Start_def emit_def Let_def
      split: prod.splits result.splits)

lemma mark_span_after_tracing_panic:
  assumes "TracingMiddleware serviceName next s = (s', Panicked v)"
    and "ctx_span s' = Some (next_span s, sampled)"
  shows "mark_span v s' = []"
  using TracingMiddleware_Panicked_ended [OF assms(1)] assms(2)
  by (simp add: mark_span_def IsRecording_def)

text \<open>
  C2, evaluated on the route \<open>/api/panic\<close> with tracing enabled and the span sampled.
  The recovery stage contains the panic (the chain returns nil and the request is served),
  sets status 500 with the body \<open>{"error": "Internal Server Error"}\<close> and emits one
  error entry with the stack, the path and the method. The events of the request show the
  span already ended when that entry is written, and no call that sets the span's status
  or records the error on it.
\<close>

theorem panic_recovered_span_unmarked:
  "snd (chain True ''svc'' api_panic request0) = Returned None \<and>
   serve True ''svc'' api_panic request0 = Some (fst (chain True ''svc'' api_panic request0)) \<and>
   resp_status (fst (chain True ''svc'' api_panic request0)) = 500 \<and>
   resp_body (fst (chain True ''svc'' api_panic request0))
     = Some (JMap [(''error'', JStr ''Internal Server Error'')]) \<and>
   filter (logged_at Error) (events (fst (chain True ''svc'' api_panic request0)))
     = [Log Error ''Panic recovered''
          [(''error'', AStr ''This is a simulated panic!''),
           (''stack'', AStr ''goroutine 1 [running]''),
           (''path'', AStr ''/api/panic''), (''method'', AStr ''GET'')]] \<and>
   ctx_span (fst (chain True ''svc'' api_panic request0)) = Some (0, True) \<and>
   filter is_SpanEnd (events (fst (chain True ''svc'' api_panic request0))) = [SpanEnd 0] \<and>
   filter is_SpanSetStatusError (events (fst (chain True ''svc'' api_panic request0))) = [] \<and>
   SpanRecordError 0 ''This is a simulated panic!'' True
     \<notin> set (events (fst (chain True ''svc'' api_panic request0)))"
proof -
  have "serve True ''svc'' api_panic request0 = Some (fst (chain True ''svc'' api_panic request0))"
    using chain_api_panic_response(1)
    by (cases "chain True ''svc'' api_panic request0") (simp add: serve_def)
  then show ?thesis
    by (simp add: chain_api_panic_events chain_api_panic_response)
qed

text \<open>
  C8, as the code has it. The stage starts one span and puts it into the context. When
  the rest of the chain returns, with or without an error, the stage sets the status
  attribute, records the error if there is one, calls the propagator's \<open>Inject\<close> once on
  the response headers and then ends the span, once. When the rest of the chain panics,
  the deferred call still ends the span, once, and nothing else is done: no injection.
\<close>

theorem tracing_stage_ends_span_once:
  assumes "start_span serviceName s = (span, s2)"
  shows "fst span = next_span s \<and> ctx_span s2 = Some span \<and>
         (\<forall>s3 err. next s2 = (s3, Returned err) \<longrightarrow>
            TracingMiddleware serviceName next s =
              (s3\<lparr>events := events s3 @ after_handler (fst span) err s3 @ [SpanEnd (fst span)]\<rparr>,
               Returned err) \<and>
            filter is_Inject (after_handler (fst span) err s3 @ [SpanEnd (fst span)])
              = [Inject (fst span)] \<and>
            filter is_SpanEnd (after_handler (fst span) err s3 @ [SpanEnd (fst span)])
              = [SpanEnd (fst span)] \<and>
            last (after_handler (fst span) err s3) = Inject (fst span)) \<and>
         (\<forall>s3 v. next s2 = (s3, Panicked v) \<longrightarrow>
            TracingMiddleware serviceName next s =
              (s3\<lparr>events := events s3 @ [SpanEnd (fst span)]\<rparr>, Panicked v))"
proof (intro conjI allI impI)
  show "fst span = next_span s" "ctx_span s2 = Some span"
    using assms by (auto simp: start_span_def tracer_Start_def Let_def)
next
  fix s3 err
  assume r: "next s2 = (s3, Returned err)"
  show "TracingMiddleware serviceName next s =
              (s3\<lparr>events := events s3 @ after_handler (fst span) err s3 @ [SpanEnd (fst span)]\<rparr>,
               Returned err)"
    using assms r by (simp add: TracingMiddleware_def emit_def)
  show "filter is_Inject (after_handler (fst span) err s3 @ [SpanEnd (fst span)])
              = [Inject (fst span)]"
    by (simp add: after_handler_def split: option.split)
  show "filter is_SpanEnd (after_handler (fst span) err s3 @ [SpanEnd (fst span)])
              = [SpanEnd (fst span)]"
    by (simp add: after_handler_def split: option.split)
  show "last (after_handler (fst span) err s3) = Inject (fst span)"
    by (simp add: after_handler_def)
next
  fix s3 v
  assume "next s2 = (s3, Panicked v)"
  then show "TracingMiddleware serviceName next s =
              (s3\<lparr>events := events s3 @ [SpanEnd (fst span)]\<rparr>, Panicked v)"
    using assms by (simp add: TracingMiddleware_def emit_def)
qed


theorem tracing_stage_ends_span_once_witness:
  "start_span ''svc'' request0 = ((0, True), snd (start_span ''svc'' request0)) \<and>
   debug_error (snd (start_span ''svc'' request0))
     = (snd (start_span ''svc'' request0), Returned (Some (FiberError 400 ''This is a deliberate error''))) \<and>
   api_panic (snd (start_span ''svc'' request0))
     = (snd (start_span ''svc'' request0), Panicked ''This is a simulated panic!'') \<and>
   snd (TracingMiddleware ''svc'' debug_error request0)
     = Returned (Some (FiberError 400 ''This is a deliberate error'')) \<and>
   snd (TracingMiddleware ''svc'' api_panic request0) = Panicked ''This is a simulated panic!'' \<and>
   events (fst (TracingMiddleware ''svc'' api_panic request0))
     = events (snd (start_span ''svc'' request0)) @ [SpanEnd 0]"
proof -
  let ?s2 = "snd (start_span ''svc'' request0)"
  have h: "start_span ''svc'' request0 = ((0, True), ?s2)"
    by (simp add: start_span_def tracer_Start_def Let_def request0_def)
  have r: "debug_error ?s2 = (?s2, Returned (Some (FiberError 400 ''This is a deliberate error'')))"
    by (simp add: debug_error_def)
  have p: "api_panic ?s2 = (?s2, Panicked ''This is a simulated panic!'')"
    by (simp add: api_panic_def)
  from tracing_stage_ends_span_once [OF h, of debug_error] r
  have a: "snd (TracingMiddleware ''svc'' debug_error request0)
     = Returned (Some (FiberError 400 ''This is a deliberate error''))"
    by simp
  from tracing_stage_ends_span_once [OF h, of api_panic] p
  have b: "TracingMiddleware ''svc'' api_panic request0
     = (?s2\<lparr>events := events ?s2 @ [SpanEnd 0]\<rparr>, Panicked ''This is a simulated panic!'')"
    by simp
  show ?thesis
    using h r p a by (simp add: b)
qed

text \<open>
  The route \<open>/api/panic\<close> through the tracing and logging stages: the panic passes the
  tracing stage, the span is ended, and \<open>Inject\<close> has not been called.
\<close>

theorem panic_skips_inject:
  "snd (TracingMiddleware ''svc'' (LoggingMiddleware api_panic) request0)
     = Panicked ''This is a simulated panic!'' \<and>
   filter is_Inject (events (fst (TracingMiddleware ''svc'' (LoggingMiddleware api_panic) request0))) = [] \<and>
   filter is_SpanEnd (events (fst (TracingMiddleware ''svc'' (LoggingMiddleware api_panic) request0)))
     = [SpanEnd 0]"
  by (simp add: TracingMiddleware_def LoggingMiddleware_def api_panic_def start_span_def
      tracer_Start_def emit_def Let_def request0_def incoming_def c_Route_def trace_fields_def)


section \<open>The cached read: the verified properties\<close>

lemma cache_lookup_warned:
  assumes "cache_lookup lf s k = Inl warned"
  shows "filter is_Log warned = warned"
  using assms by (auto simp: cache_lookup_def split: sum.splits)

text \<open>
  \<open>GetUser\<close> on a cache miss, unfolded: the events up to the store query, then the two
  ways the query can end.
\<close>

lemma GetUser_miss:
  assumes "cache_lookup (trace_fields s) s (''user:'' @ param_id s) = Inl warned"
  shows "GetUser serviceName s =
     (let s5 = s\<lparr>next_span := next_span s + 1,
                  events := events s @
                    [SpanStart (next_span s) ''handler.get-user'' [],
                     SpanSetAttributes (next_span s) [(''user.id'', AStr (param_id s))]] @ warned @
                    [Log Info ''Cache miss'' (trace_fields s @ [(''id'', AStr (param_id s))]),
                     SpanSetAttributes (next_span s) [(''cache.hit'', ABool False)]]\<rparr>
      in case QueryRow_user (pg s) (param_id s) of
           Inl err \<Rightarrow>
             (s5\<lparr>events := events s5 @
                   [Log Error ''User not found''
                      (trace_fields s @ [(''id'', AStr (param_id s)),
                                         (''error'', AStr (pg_error_text err))]),
                    SpanEnd (next_span s)]\<rparr>,
              Returned (Some (FiberError StatusNotFound ''User not found'')))
         | Inr u \<Rightarrow>
             (s5\<lparr>rdb := fst (redis_Set (rdb s) (''user:'' @ param_id s) (Marshal u) (10 * Minute)),
                 resp_body := Some (JUser u),
                 events := events s5 @ [SpanEnd (next_span s)]\<rparr>,
              Returned None))"
proof -
  let ?s2 = "emit (SpanSetAttributes (next_span s) [(''user.id'', AStr (param_id s))])
               ((emit (SpanStart (next_span s) ''handler.get-user'' []) s)\<lparr>next_span := next_span s + 1\<rparr>)"
  have "cache_lookup (trace_fields s) ?s2 (''user:'' @ param_id s) = Inl warned"
    using assms by (simp add: cache_lookup_def emit_def)
  then show ?thesis
    by (simp add: GetUser_def tracer_Start_def Let_def emit_def c_JSON_def split: sum.split)
qed


lemma QueryRow_user_absent:
  assumes "pg_up db" "int_of_text uid = Some n" "- (2 ^ 31) \<le> n" "n < 2 ^ 31"
    and "\<forall>u \<in> set (pg_rows db). ID u \<noteq> n"
  shows "QueryRow_user db uid = Inl ErrNoRows"
proof -
  have "find (\<lambda>u. ID u = n) (pg_rows db) = None"
    using assms(5) by (simp add: find_None_iff)
  then show ?thesis
    using assms(1-4) by (simp add: QueryRow_user_def)
qed

text \<open>
  C4. A read of a user whose id is in no row of the store, after a cache miss (Redis gave
  no value, or one that does not decode): \<open>GetUser\<close> returns the error 404 "User not
  found", which the error handler of \<open>main\<close> turns into a response with status 404 and
  that message; nothing is written to the cache, which is left as it was.
\<close>

theorem GetUser_not_found:
  assumes "cache_lookup (trace_fields s) s (''user:'' @ param_id s) = Inl warned"
    and "pg_up (pg s)"
    and "int_of_text (param_id s) = Some n" "- (2 ^ 31) \<le> n" "n < 2 ^ 31"
    and "\<forall>u \<in> set (pg_rows (pg s)). ID u \<noteq> n"
  shows "snd (GetUser serviceName s) = Returned (Some (FiberError StatusNotFound ''User not found'')) \<and>
         StatusNotFound = 404 \<and>
         rdb (fst (GetUser serviceName s)) = rdb s \<and>
         resp_status (GetUser_response serviceName s) = 404 \<and>
         resp_body (GetUser_response serviceName s) = Some (JMap [(''error'', JStr ''User not found'')]) \<and>
         rdb (GetUser_response serviceName s) = rdb s"
proof -
  have q: "QueryRow_user (pg s) (param_id s) = Inl ErrNoRows"
    using assms(2-6) by (rule QueryRow_user_absent)
  have g: "snd (GetUser serviceName s) = Returned (Some (FiberError StatusNotFound ''User not found''))"
    and r: "rdb (fst (GetUser serviceName s)) = rdb s"
    using GetUser_miss [OF assms(1), of serviceName] q by (simp_all add: Let_def)
  obtain s1 where s1: "GetUser serviceName s = (s1, Returned (Some (FiberError StatusNotFound ''User not found'')))"
    using g by (cases "GetUser serviceName s") simp
  have resp: "GetUser_response serviceName s = ErrorHandler (FiberError StatusNotFound ''User not found'') s1"
    by (simp add: GetUser_response_def s1)
  have "rdb s1 = rdb s" using r s1 by simp
  then show ?thesis
    using g r by (simp add: resp ErrorHandler_def Let_def emit_def c_JSON_def c_Status_def StatusNotFound_def)
qed

theorem GetUser_not_found_witness:
  "cache_lookup (trace_fields (request0\<lparr>param_id := ''999999''\<rparr>)) (request0\<lparr>param_id := ''999999''\<rparr>)
     (''user:'' @ param_id (request0\<lparr>param_id := ''999999''\<rparr>)) = Inl [] \<and>
   pg_up (pg (request0\<lparr>param_id := ''999999''\<rparr>)) \<and>
   int_of_text (param_id (request0\<lparr>param_id := ''999999''\<rparr>)) = Some 999999 \<and>
   999999 \<notin> set (map ID (pg_rows (pg (request0\<lparr>param_id := ''999999''\<rparr>)))) \<and>
   resp_status (GetUser_response ''svc'' (request0\<lparr>param_id := ''999999''\<rparr>)) = 404 \<and>
   rdb (GetUser_response ''svc'' (request0\<lparr>param_id := ''999999''\<rparr>)) = rdb request0"
proof -
  let ?s = "request0\<lparr>param_id := ''999999''\<rparr>"
  have c: "cache_lookup (trace_fields ?s) ?s (''user:'' @ param_id ?s) = Inl []"
    by (simp add: cache_lookup_def redis_Get_def request0_def)
  have u: "pg_up (pg ?s)"
    by (simp add: request0_def)
  have i: "int_of_text (param_id ?s) = Some 999999"
    by (simp add: int_of_text_def numeric_def isDigit_def)
  have a: "\<forall>u \<in> set (pg_rows (pg ?s)). ID u \<noteq> 999999"
    by (simp add: request0_def alice_def)
  have "rdb ?s = rdb request0"
    by simp
  with GetUser_not_found [OF c u i _ _ a, of "''svc''"] c u i a
  show ?thesis by (simp add: request0_def alice_def)
qed

text \<open>
  C3, evaluated on a read of user 1 while the store cannot be reached: the cache misses,
  the query fails with a connection error, and \<open>GetUser\<close> answers as for a missing row.
  The failure is logged at error level with its cause and the client receives only the
  text "User not found", but the status is 404 where the specification requires 500.
\<close>

theorem GetUser_store_down_404:
  "QueryRow_user (pg (request0\<lparr>pg := \<lparr>pg_up = False, pg_rows = [alice]\<rparr>\<rparr>))
     (param_id (request0\<lparr>pg := \<lparr>pg_up = False, pg_rows = [alice]\<rparr>\<rparr>)) = Inl ConnError \<and>
   snd (GetUser ''svc'' (request0\<lparr>pg := \<lparr>pg_up = False, pg_rows = [alice]\<rparr>\<rparr>))
     = Returned (Some (FiberError 404 ''User not found'')) \<and>
   resp_status (GetUser_response ''svc'' (request0\<lparr>pg := \<lparr>pg_up = False, pg_rows = [alice]\<rparr>\<rparr>)) = 404 \<and>
   resp_body (GetUser_response ''svc'' (request0\<lparr>pg := \<lparr>pg_up = False, pg_rows = [alice]\<rparr>\<rparr>))
     = Some (JMap [(''error'', JStr ''User not found'')]) \<and>
   Log Error ''User not found'' [(''id'', AStr ''1''), (''error'', AStr ''failed to connect'')]
     \<in> set (events (fst (GetUser ''svc'' (request0\<lparr>pg := \<lparr>pg_up = False, pg_rows = [alice]\<rparr>\<rparr>))))"
proof -
  let ?s = "request0\<lparr>pg := \<lparr>pg_up = False, pg_rows = [alice]\<rparr>\<rparr>"
  have c: "cache_lookup (trace_fields ?s) ?s (''user:'' @ param_id ?s) = Inl []"
    by (simp add: cache_lookup_def redis_Get_def request0_def)
  have q: "QueryRow_user (pg ?s) (param_id ?s) = Inl ConnError"
    by (simp add: QueryRow_user_def)
  have p: "param_id ?s = ''1''" "trace_fields ?s = []"
    by (simp_all add: request0_def trace_fields_def)
  have g: "snd (GetUser ''svc'' ?s) = Returned (Some (FiberError 404 ''User not found''))"
    and e: "Log Error ''User not found'' [(''id'', AStr ''1''), (''error'', AStr ''failed to connect'')]
     \<in> set (events (fst (GetUser ''svc'' ?s)))"
    using GetUser_miss [OF c, of "''svc''"] q p by (simp_all add: Let_def StatusNotFound_def)
  obtain s1 where s1: "GetUser ''svc'' ?s = (s1, Returned (Some (FiberError 404 ''User not found'')))"
    using g by (cases "GetUser ''svc'' ?s") simp
  have "GetUser_response ''svc'' ?s = ErrorHandler (FiberError 404 ''User not found'') s1"
    by (simp add: GetUser_response_def s1)
  then show ?thesis
    using q g e by (simp add: ErrorHandler_def Let_def emit_def c_JSON_def c_Status_def)
qed


text \<open>
  C7, as the code has it. On a cache miss whose store lookup finds the user, the user is
  serialized and written to the cache under the key of the request with a time to live
  of ten minutes, the read succeeds and the response carries the user. The result of the
  write is not inspected: when the write fails the cache is left as it was, and the log
  entries of the request are those of a successful write, the entry "Cache miss" being
  the last.
\<close>

theorem GetUser_hydrates_cache:
  assumes "cache_lookup (trace_fields s) s (''user:'' @ param_id s) = Inl warned"
    and "QueryRow_user (pg s) (param_id s) = Inr u"
  shows "snd (GetUser serviceName s) = Returned None \<and>
         resp_body (fst (GetUser serviceName s)) = Some (JUser u) \<and>
         rdb (fst (GetUser serviceName s))
           = fst (redis_Set (rdb s) (''user:'' @ param_id s) (Marshal u) (10 * Minute)) \<and>
         (rdb_up (rdb s) \<longrightarrow>
            rdb_entries (rdb (fst (GetUser serviceName s))) (''user:'' @ param_id s)
              = Some (Marshal u, 600)) \<and>
         (\<not> rdb_up (rdb s) \<longrightarrow>
            snd (redis_Set (rdb s) (''user:'' @ param_id s) (Marshal u) (10 * Minute)) \<and>
            rdb (fst (GetUser serviceName s)) = rdb s) \<and>
         filter is_Log (events (fst (GetUser serviceName s)))
           = filter is_Log (events s) @ warned @
             [Log Info ''Cache miss'' (trace_fields s @ [(''id'', AStr (param_id s))])]"
proof -
  have w: "filter is_Log warned = warned"
    using assms(1) by (rule cache_lookup_warned)
  have g: "GetUser serviceName s =
     (s\<lparr>next_span := next_span s + 1,
         events := events s @
           [SpanStart (next_span s) ''handler.get-user'' [],
            SpanSetAttributes (next_span s) [(''user.id'', AStr (param_id s))]] @ warned @
           [Log Info ''Cache miss'' (trace_fields s @ [(''id'', AStr (param_id s))]),
            SpanSetAttributes (next_span s) [(''cache.hit'', ABool False)]] @
           [SpanEnd (next_span s)],
         rdb := fst (redis_Set (rdb s) (''user:'' @ param_id s) (Marshal u) (10 * Minute)),
         resp_body := Some (JUser u)\<rparr>,
      Returned None)"
    using GetUser_miss [OF assms(1), of serviceName] assms(2) by (simp add: Let_def)
  have "filter is_Log (events (fst (GetUser serviceName s)))
           = filter is_Log (events s) @ warned @
             [Log Info ''Cache miss'' (trace_fields s @ [(''id'', AStr (param_id s))])]"
    by (simp add: g w)
  then show ?thesis
    by (simp add: g redis_Set_def Minute_def)
qed

theorem GetUser_hydrates_cache_witness:
  "cache_lookup (trace_fields request0) request0 (''user:'' @ param_id request0) = Inl [] \<and>
   QueryRow_user (pg request0) (param_id request0) = Inr alice \<and>
   rdb_up (rdb request0) \<and>
   resp_body (fst (GetUser ''svc'' request0)) = Some (JUser alice) \<and>
   rdb_entries (rdb (fst (GetUser ''svc'' request0))) ''user:1'' = Some (Marshal alice, 600)"
proof -
  have c: "cache_lookup (trace_fields request0) request0 (''user:'' @ param_id request0) = Inl []"
    by (simp add: cache_lookup_def redis_Get_def request0_def)
  have q: "QueryRow_user (pg request0) (param_id request0) = Inr alice"
    by (simp add: QueryRow_user_def request0_def int_of_text_def numeric_def isDigit_def alice_def)
  have u: "rdb_up (rdb request0)" and p: "param_id request0 = ''1''"
    by (simp_all add: request0_def)
  from GetUser_hydrates_cache [OF c q, of "''svc''"] c q u p
  show ?thesis by (simp add: redis_Set_def Minute_def)
qed

text \<open>
  A read of user 1 while Redis cannot be reached: the lookup misses, the store has the
  user, the write fails, and the only log entry of the request is "Cache miss".
\<close>

theorem cache_write_failure_not_logged:
  "snd (redis_Set (rdb (request0\<lparr>rdb := \<lparr>rdb_up = False, rdb_entries = Map.empty\<rparr>\<rparr>))
          ''user:1'' (Marshal alice) (10 * Minute)) \<and>
   snd (GetUser ''svc'' (request0\<lparr>rdb := \<lparr>rdb_up = False, rdb_entries = Map.empty\<rparr>\<rparr>)) = Returned None \<and>
   resp_body (fst (GetUser ''svc'' (request0\<lparr>rdb := \<lparr>rdb_up = False, rdb_entries = Map.empty\<rparr>\<rparr>)))
     = Some (JUser alice) \<and>
   filter is_Log (events (fst (GetUser ''svc'' (request0\<lparr>rdb := \<lparr>rdb_up = False, rdb_entries = Map.empty\<rparr>\<rparr>))))
     = [Log Info ''Cache miss'' [(''id'', AStr ''1'')]]"
proof -
  let ?s = "request0\<lparr>rdb := \<lparr>rdb_up = False, rdb_entries = Map.empty\<rparr>\<rparr>"
  have c: "cache_lookup (trace_fields ?s) ?s (''user:'' @ param_id ?s) = Inl []"
    by (simp add: cache_lookup_def redis_Get_def)
  have q: "QueryRow_user (pg ?s) (param_id ?s) = Inr alice"
    by (simp add: QueryRow_user_def request0_def int_of_text_def numeric_def isDigit_def alice_def)
  have p: "param_id ?s = ''1''" "trace_fields ?s = []" "events ?s = []"
    by (simp_all add: request0_def trace_fields_def)
  show ?thesis
    using GetUser_miss [OF c, of "''svc''"] q p by (simp add: Let_def redis_Set_def)
qed


section \<open>Shutdown: the verified properties\<close>

lemma call_deadline:
  "\<exists>t failed. call (Some d) b = Some (t, failed) \<and> t \<le> d"
  by (cases b) auto

text \<open>
  C9, as the code has it. After the server has been shut down under its ten-second
  context, the deferred calls close the cache, close the store pool and shut down the
  metrics, trace and log exporters, in that order. The shutdowns of the trace exporter
  and of the log exporter run under a context of ten seconds and take at most ten
  seconds each; the two closes take no context and last as long as the subsystem needs.
  Provided the calls made without a deadline return, every one of the five steps is
  attempted whatever the earlier ones reported, and a failure of the cache close, the
  metrics shutdown, the trace shutdown or the log shutdown is logged at error level.
\<close>

theorem shutdown_best_effort:
  assumes "rdb_client h = Some (Completes t1 f1)"
    and "pool h = Some (Completes t2 f2)"
    and "meterProvider h = Some (Completes t3 f3)"
    and "tracerProvider h = Some b4"
    and "loggerProvider h = Some b5"
  shows "\<exists>td t0 f0 t4 f4 t5 f5.
           main_shutdown h = Some td \<and>
           call (Some 10) (server h) = Some (t0, f0) \<and>
           call (Some 10) b4 = Some (t4, f4) \<and>
           call (Some 10) b5 = Some (t5, f5) \<and>
           td_calls td =
             [(''app.ShutdownWithContext'', t0), (''rdb.Close'', t1), (''pool.Close'', t2),
              (''meterProvider.Shutdown'', t3), (''tracerProvider.Shutdown'', t4),
              (''loggerProvider.Shutdown'', t5)] \<and>
           t0 \<le> 10 \<and> t4 \<le> 10 \<and> t5 \<le> 10 \<and>
           (f1 \<longrightarrow> (Error, ''Failed to close Redis'') \<in> set (td_log td)) \<and>
           (f3 \<longrightarrow> (Error, ''Error shutting down meter provider'') \<in> set (td_log td)) \<and>
           (f4 \<longrightarrow> (Error, ''Error shutting down tracer provider'') \<in> set (td_log td)) \<and>
           (f5 \<longrightarrow> (Error, ''Error shutting down logger provider'') \<in> set (td_log td))"
proof -
  obtain t0 f0 where c0: "call (Some 10) (server h) = Some (t0, f0)" "t0 \<le> 10"
    using call_deadline by blast
  obtain t4 f4 where c4: "call (Some 10) b4 = Some (t4, f4)" "t4 \<le> 10"
    using call_deadline by blast
  obtain t5 f5 where c5: "call (Some 10) b5 = Some (t5, f5)" "t5 \<le> 10"
    using call_deadline by blast
  define td2 where "td2 = td_info ''Server shutdown complete''
      ((if f0 then td_error ''Server shutdown error'' else (\<lambda>td. td))
         (td_call ''app.ShutdownWithContext'' t0
            (td_info ''Shutting down server...''
               (td_info ''Shutting down server...'' \<lparr>td_log = [], td_calls = []\<rparr>))))"
  define td3 where "td3 = (if f1 then td_error ''Failed to close Redis''
      else td_info ''Redis connection closed'') (td_call ''rdb.Close'' t1 td2)"
  define td4 where "td4 = td_info ''PostgreSQL connection pool closed'' (td_call ''pool.Close'' t2 td3)"
  define td5 where "td5 = (if f3 then td_error ''Error shutting down meter provider''
      else td_info ''Meter provider shut down successfully'') (td_call ''meterProvider.Shutdown'' t3 td4)"
  define td6 where "td6 = (if f4 then td_error ''Error shutting down tracer provider''
      else td_info ''Tracer provider shut down successfully'')
        (td_call ''tracerProvider.Shutdown'' t4 (td_info ''Shutting down tracer provider...'' td5))"
  define td7 where "td7 = (if f5 then td_error ''Error shutting down logger provider''
      else td_info ''Logger provider shut down successfully'')
        (td_call ''loggerProvider.Shutdown'' t5 (td_info ''Shutting down logger provider...'' td6))"
  have s3: "CloseRedis h td2 = Some td3"
    using assms(1) by (simp add: CloseRedis_def td3_def)
  have s4: "Close h td3 = Some td4"
    using assms(2) by (simp add: Close_def td4_def)
  have s5: "metrics_Shutdown None h td4 = Some td5"
    using assms(3) by (simp add: metrics_Shutdown_def td5_def)
  have s6: "tracer_Shutdown None h td5 = Some td6"
    using assms(4) c4(1) by (simp add: tracer_Shutdown_def td6_def WithTimeout_def Let_def)
  have s7: "logger_Shutdown None h td6 = Some td7"
    using assms(5) c5(1) by (simp add: logger_Shutdown_def td7_def WithTimeout_def Let_def)
  have m: "main_shutdown h = Some td7"
    using c0(1) s3 s4 s5 s6 s7 by (simp add: main_shutdown_def WithTimeout_def Let_def td2_def)
  have calls: "td_calls td7 =
             [(''app.ShutdownWithContext'', t0), (''rdb.Close'', t1), (''pool.Close'', t2),
              (''meterProvider.Shutdown'', t3), (''tracerProvider.Shutdown'', t4),
              (''loggerProvider.Shutdown'', t5)]"
    by (simp add: td7_def td6_def td5_def td4_def td3_def td2_def td_info_def td_error_def td_call_def)
  have l1: "f1 \<longrightarrow> (Error, ''Failed to close Redis'') \<in> set (td_log td7)"
    by (simp add: td7_def td6_def td5_def td4_def td3_def td_info_def td_error_def td_call_def)
  have l3: "f3 \<longrightarrow> (Error, ''Error shutting down meter provider'') \<in> set (td_log td7)"
    by (simp add: td7_def td6_def td5_def td_info_def td_error_def td_call_def)
  have l4: "f4 \<longrightarrow> (Error, ''Error shutting down tracer provider'') \<in> set (td_log td7)"
    by (simp add: td7_def td6_def td_info_def td_error_def td_call_def)
  have l5: "f5 \<longrightarrow> (Error, ''Error shutting down logger provider'') \<in> set (td_log td7)"
    by (simp add: td7_def td_info_def td_error_def td_call_def)
  from m c0 c4 c5 calls l1 l3 l4 l5 show ?thesis
    by blast
qed

theorem shutdown_best_effort_witness:
  "rdb_client failing_exporters = Some (Completes 0 True) \<and>
   pool failing_exporters = Some (Completes 2 False) \<and>
   meterProvider failing_exporters = Some (Completes 3 True) \<and>
   tracerProvider failing_exporters = Some Hangs \<and>
   loggerProvider failing_exporters = Some (Completes 1 False) \<and>
   (\<exists>td. main_shutdown failing_exporters = Some td \<and>
      td_calls td =
        [(''app.ShutdownWithContext'', 1), (''rdb.Close'', 0), (''pool.Close'', 2),
         (''meterProvider.Shutdown'', 3), (''tracerProvider.Shutdown'', 10),
         (''loggerProvider.Shutdown'', 1)] \<and>
      (Error, ''Failed to close Redis'') \<in> set (td_log td) \<and>
      (Error, ''Error shutting down meter provider'') \<in> set (td_log td) \<and>
      (Error, ''Error shutting down tracer provider'') \<in> set (td_log td))"
proof -
  have h: "rdb_client failing_exporters = Some (Completes 0 True)"
    "pool failing_exporters = Some (Completes 2 False)"
    "meterProvider failing_exporters = Some (Completes 3 True)"
    "tracerProvider failing_exporters = Some Hangs"
    "loggerProvider failing_exporters = Some (Completes 1 False)"
    by (simp_all add: failing_exporters_def)
  have s: "server failing_exporters = Completes 1 False"
    by (simp add: failing_exporters_def)
  from shutdown_best_effort [OF h] s h show ?thesis
    by auto
qed

text \<open>
  Closing a connection pool that needs a minute: the call is made without a deadline and
  takes the whole minute.
\<close>

theorem pool_close_unbounded:
  "map_option td_calls (main_shutdown slow_pool) =
     Some [(''app.ShutdownWithContext'', 1), (''rdb.Close'', 0), (''pool.Close'', 60),
           (''meterProvider.Shutdown'', 0), (''tracerProvider.Shutdown'', 0),
           (''loggerProvider.Shutdown'', 0)] \<and>
   \<not> (60 :: nat) \<le> 10"
  by (simp add: main_shutdown_def slow_pool_def WithTimeout_def Let_def CloseRedis_def Close_def
      metrics_Shutdown_def tracer_Shutdown_def logger_Shutdown_def td_info_def td_error_def
      td_call_def)


end
